theory Spec2Isabelle
  imports Main "HOL-Library.Sublist" "HOL-Library.AList"
begin

section \<open>Strings\<close>

text \<open>
  The program is a Flask application, \<^verbatim>\<open>app.py\<close>. A Python \<^verbatim>\<open>str\<close> is modelled by
  \<^typ>\<open>string\<close>, read as the bytes of its UTF-8 encoding, so the Cyrillic literals of the
  source are written byte by byte. Every character the program inspects (the dot, the
  nine characters of the sanitizer's class, the letters of the two extensions) is ASCII,
  and no byte of a multi-byte UTF-8 sequence is ASCII, so the functions below act on the
  bytes exactly as the source acts on the code points. \<^verbatim>\<open>str.lower\<close> is modelled on the
  ASCII letters only: no character outside ASCII lowers to one of the letters of
  \<^verbatim>\<open>docx\<close> or \<^verbatim>\<open>csv\<close>, which is all the source compares the result with.
\<close>

type_synonym path = string
type_synonym bytes = string

text \<open>An exception is represented by \<^verbatim>\<open>str(e)\<close>, the only thing the handlers read of it.\<close>

type_synonym exn = string

definition ascii_lower :: "char \<Rightarrow> char" where
  "ascii_lower c =
     (case map_of (zip ''ABCDEFGHIJKLMNOPQRSTUVWXYZ'' ''abcdefghijklmnopqrstuvwxyz'') c of
        None \<Rightarrow> c
      | Some l \<Rightarrow> l)"

definition lower :: "string \<Rightarrow> string" where
  "lower s = map ascii_lower s"

definition digit_char :: "nat \<Rightarrow> char" where
  "digit_char d = ''0123456789'' ! d"

text \<open>\<^verbatim>\<open>str(n)\<close> (and \<^verbatim>\<open>f'{n}'\<close>) for a non-negative integer.\<close>

function str_nat :: "nat \<Rightarrow> string" where
  "str_nat n =
     (if n < 10 then [digit_char n] else str_nat (n div 10) @ [digit_char (n mod 10)])"
  by pat_completeness auto
termination
  by (relation "measure id") auto

declare str_nat.simps [simp del]

text \<open>\<^verbatim>\<open>sep.join(xs)\<close>.\<close>

fun join :: "string \<Rightarrow> string list \<Rightarrow> string" where
  "join sep [] = []"
| "join sep [x] = x"
| "join sep (x # y # ys) = x @ sep @ join sep (y # ys)"

definition quoted :: "string \<Rightarrow> string" where
  "quoted s = [CHR 0x27] @ s @ [CHR 0x27]"

subsection \<open>The literals of the source\<close>

definition ORG_FIELD :: string where
  "ORG_FIELD =
     [CHR 0xD0, CHR 0x9E, CHR 0xD1, CHR 0x80, CHR 0xD0, CHR 0xB3, CHR 0xD0, CHR 0xB0, CHR 0xD0,
     CHR 0xBD, CHR 0xD0, CHR 0xB8, CHR 0xD0, CHR 0xB7, CHR 0xD0, CHR 0xB0, CHR 0xD1, CHR 0x86,
     CHR 0xD0, CHR 0xB8, CHR 0xD1, CHR 0x8F]"

definition MSG_TEMPLATE_MISSING :: string where
  "MSG_TEMPLATE_MISSING =
     [CHR 0xD0, CHR 0xA8, CHR 0xD0, CHR 0xB0, CHR 0xD0, CHR 0xB1, CHR 0xD0, CHR 0xBB, CHR 0xD0,
     CHR 0xBE, CHR 0xD0, CHR 0xBD] @ '' '' @ [CHR 0xD0, CHR 0xBD, CHR 0xD0, CHR 0xB5] @ '' '' @
     [CHR 0xD0, CHR 0xB7, CHR 0xD0, CHR 0xB0, CHR 0xD0, CHR 0xB3, CHR 0xD1, CHR 0x80, CHR 0xD1,
     CHR 0x83, CHR 0xD0, CHR 0xB6, CHR 0xD0, CHR 0xB5, CHR 0xD0, CHR 0xBD]"

definition MSG_TEMPLATE_EMPTY :: string where
  "MSG_TEMPLATE_EMPTY =
     [CHR 0xD0, CHR 0xA4, CHR 0xD0, CHR 0xB0, CHR 0xD0, CHR 0xB9, CHR 0xD0, CHR 0xBB] @ '' '' @
     [CHR 0xD1, CHR 0x88, CHR 0xD0, CHR 0xB0, CHR 0xD0, CHR 0xB1, CHR 0xD0, CHR 0xBB, CHR 0xD0,
     CHR 0xBE, CHR 0xD0, CHR 0xBD, CHR 0xD0, CHR 0xB0] @ '' '' @ [CHR 0xD0, CHR 0xBF, CHR 0xD1,
     CHR 0x83, CHR 0xD1, CHR 0x81, CHR 0xD1, CHR 0x82]"

definition MSG_TEMPLATE_FORMAT :: string where
  "MSG_TEMPLATE_FORMAT =
     [CHR 0xD0, CHR 0x9D, CHR 0xD0, CHR 0xB5, CHR 0xD0, CHR 0xB4, CHR 0xD0, CHR 0xBE, CHR 0xD0,
     CHR 0xBF, CHR 0xD1, CHR 0x83, CHR 0xD1, CHR 0x81, CHR 0xD1, CHR 0x82, CHR 0xD0, CHR 0xB8,
     CHR 0xD0, CHR 0xBC, CHR 0xD1, CHR 0x8B, CHR 0xD0, CHR 0xB9] @ '' '' @ [CHR 0xD1, CHR 0x84,
     CHR 0xD0, CHR 0xBE, CHR 0xD1, CHR 0x80, CHR 0xD0, CHR 0xBC, CHR 0xD0, CHR 0xB0, CHR 0xD1,
     CHR 0x82] @ '' '' @ [CHR 0xD1, CHR 0x88, CHR 0xD0, CHR 0xB0, CHR 0xD0, CHR 0xB1, CHR 0xD0,
     CHR 0xBB, CHR 0xD0, CHR 0xBE, CHR 0xD0, CHR 0xBD, CHR 0xD0, CHR 0xB0]"

definition MSG_TEMPLATE_READ :: string where
  "MSG_TEMPLATE_READ =
     [CHR 0xD0, CHR 0x9E, CHR 0xD1, CHR 0x88, CHR 0xD0, CHR 0xB8, CHR 0xD0, CHR 0xB1, CHR 0xD0,
     CHR 0xBA, CHR 0xD0, CHR 0xB0] @ '' '' @ [CHR 0xD0, CHR 0xBF, CHR 0xD1, CHR 0x80, CHR 0xD0,
     CHR 0xB8] @ '' '' @ [CHR 0xD1, CHR 0x87, CHR 0xD1, CHR 0x82, CHR 0xD0, CHR 0xB5, CHR 0xD0,
     CHR 0xBD, CHR 0xD0, CHR 0xB8, CHR 0xD0, CHR 0xB8] @ '' '' @ [CHR 0xD1, CHR 0x88, CHR 0xD0,
     CHR 0xB0, CHR 0xD0, CHR 0xB1, CHR 0xD0, CHR 0xBB, CHR 0xD0, CHR 0xBE, CHR 0xD0, CHR 0xBD,
     CHR 0xD0, CHR 0xB0] @ '': ''"

definition MSG_UNKNOWN :: string where
  "MSG_UNKNOWN =
     [CHR 0xD0, CHR 0x9D, CHR 0xD0, CHR 0xB5, CHR 0xD0, CHR 0xB8, CHR 0xD0, CHR 0xB7, CHR 0xD0,
     CHR 0xB2, CHR 0xD0, CHR 0xB5, CHR 0xD1, CHR 0x81, CHR 0xD1, CHR 0x82, CHR 0xD0, CHR 0xBD,
     CHR 0xD0, CHR 0xB0, CHR 0xD1, CHR 0x8F] @ '' '' @ [CHR 0xD0, CHR 0xBE, CHR 0xD1, CHR 0x88,
     CHR 0xD0, CHR 0xB8, CHR 0xD0, CHR 0xB1, CHR 0xD0, CHR 0xBA, CHR 0xD0, CHR 0xB0] @ '': ''"

definition MSG_CSV_MISSING :: string where
  "MSG_CSV_MISSING =
     ''CSV '' @ [CHR 0xD0, CHR 0xBD, CHR 0xD0, CHR 0xB5] @ '' '' @ [CHR 0xD0, CHR 0xB7, CHR 0xD0,
     CHR 0xB0, CHR 0xD0, CHR 0xB3, CHR 0xD1, CHR 0x80, CHR 0xD1, CHR 0x83, CHR 0xD0, CHR 0xB6,
     CHR 0xD0, CHR 0xB5, CHR 0xD0, CHR 0xBD]"

definition MSG_CSV_EMPTY :: string where
  "MSG_CSV_EMPTY =
     [CHR 0xD0, CHR 0xA4, CHR 0xD0, CHR 0xB0, CHR 0xD0, CHR 0xB9, CHR 0xD0, CHR 0xBB] @ '' CSV ''
     @ [CHR 0xD0, CHR 0xBF, CHR 0xD1, CHR 0x83, CHR 0xD1, CHR 0x81, CHR 0xD1, CHR 0x82]"

definition MSG_CSV_FORMAT :: string where
  "MSG_CSV_FORMAT =
     [CHR 0xD0, CHR 0x9D, CHR 0xD0, CHR 0xB5, CHR 0xD0, CHR 0xB4, CHR 0xD0, CHR 0xBE, CHR 0xD0,
     CHR 0xBF, CHR 0xD1, CHR 0x83, CHR 0xD1, CHR 0x81, CHR 0xD1, CHR 0x82, CHR 0xD0, CHR 0xB8,
     CHR 0xD0, CHR 0xBC, CHR 0xD1, CHR 0x8B, CHR 0xD0, CHR 0xB9] @ '' '' @ [CHR 0xD1, CHR 0x84,
     CHR 0xD0, CHR 0xBE, CHR 0xD1, CHR 0x80, CHR 0xD0, CHR 0xBC, CHR 0xD0, CHR 0xB0, CHR 0xD1,
     CHR 0x82] @ '' CSV''"

definition MSG_CSV_READ :: string where
  "MSG_CSV_READ =
     [CHR 0xD0, CHR 0x9E, CHR 0xD1, CHR 0x88, CHR 0xD0, CHR 0xB8, CHR 0xD0, CHR 0xB1, CHR 0xD0,
     CHR 0xBA, CHR 0xD0, CHR 0xB0] @ '' '' @ [CHR 0xD0, CHR 0xBF, CHR 0xD1, CHR 0x80, CHR 0xD0,
     CHR 0xB8] @ '' '' @ [CHR 0xD1, CHR 0x87, CHR 0xD1, CHR 0x82, CHR 0xD0, CHR 0xB5, CHR 0xD0,
     CHR 0xBD, CHR 0xD0, CHR 0xB8, CHR 0xD0, CHR 0xB8] @ '' CSV: ''"

definition MSG_BOTH_REQUIRED :: string where
  "MSG_BOTH_REQUIRED =
     [CHR 0xD0, CHR 0xA8, CHR 0xD0, CHR 0xB0, CHR 0xD0, CHR 0xB1, CHR 0xD0, CHR 0xBB, CHR 0xD0,
     CHR 0xBE, CHR 0xD0, CHR 0xBD] @ '' '' @ [CHR 0xD0, CHR 0xB8] @ '' CSV '' @ [CHR 0xD0, CHR
     0xBE, CHR 0xD0, CHR 0xB1, CHR 0xD1, CHR 0x8F, CHR 0xD0, CHR 0xB7, CHR 0xD0, CHR 0xB0, CHR
     0xD1, CHR 0x82, CHR 0xD0, CHR 0xB5, CHR 0xD0, CHR 0xBB, CHR 0xD1, CHR 0x8C, CHR 0xD0, CHR
     0xBD, CHR 0xD1, CHR 0x8B]"

definition MSG_NOT_SELECTED :: string where
  "MSG_NOT_SELECTED =
     [CHR 0xD0, CHR 0xA4, CHR 0xD0, CHR 0xB0, CHR 0xD0, CHR 0xB9, CHR 0xD0, CHR 0xBB, CHR 0xD1,
     CHR 0x8B] @ '' '' @ [CHR 0xD0, CHR 0xBD, CHR 0xD0, CHR 0xB5] @ '' '' @ [CHR 0xD0, CHR 0xB2,
     CHR 0xD1, CHR 0x8B, CHR 0xD0, CHR 0xB1, CHR 0xD1, CHR 0x80, CHR 0xD0, CHR 0xB0, CHR 0xD0,
     CHR 0xBD, CHR 0xD1, CHR 0x8B]"

definition MSG_ROW :: string where
  "MSG_ROW =
     [CHR 0xD0, CHR 0xA1, CHR 0xD1, CHR 0x82, CHR 0xD1, CHR 0x80, CHR 0xD0, CHR 0xBE, CHR 0xD0,
     CHR 0xBA, CHR 0xD0, CHR 0xB0] @ '' ''"

definition MSG_NO_DOCUMENTS :: string where
  "MSG_NO_DOCUMENTS =
     [CHR 0xD0, CHR 0x9D, CHR 0xD0, CHR 0xB5] @ '' '' @ [CHR 0xD1, CHR 0x83, CHR 0xD0, CHR 0xB4,
     CHR 0xD0, CHR 0xB0, CHR 0xD0, CHR 0xBB, CHR 0xD0, CHR 0xBE, CHR 0xD1, CHR 0x81, CHR 0xD1,
     CHR 0x8C] @ '' '' @ [CHR 0xD1, CHR 0x81, CHR 0xD0, CHR 0xBE, CHR 0xD0, CHR 0xB7, CHR 0xD0,
     CHR 0xB4, CHR 0xD0, CHR 0xB0, CHR 0xD1, CHR 0x82, CHR 0xD1, CHR 0x8C] @ '' '' @ [CHR 0xD0,
     CHR 0xB4, CHR 0xD0, CHR 0xBE, CHR 0xD0, CHR 0xBA, CHR 0xD1, CHR 0x83, CHR 0xD0, CHR 0xBC,
     CHR 0xD0, CHR 0xB5, CHR 0xD0, CHR 0xBD, CHR 0xD1, CHR 0x82, CHR 0xD1, CHR 0x8B] @ ''. '' @
     [CHR 0xD0, CHR 0x9E, CHR 0xD1, CHR 0x88, CHR 0xD0, CHR 0xB8, CHR 0xD0, CHR 0xB1, CHR 0xD0,
     CHR 0xBA, CHR 0xD0, CHR 0xB8] @ '': ''"

definition MSG_PROCESSING :: string where
  "MSG_PROCESSING =
     [CHR 0xD0, CHR 0x9E, CHR 0xD1, CHR 0x88, CHR 0xD0, CHR 0xB8, CHR 0xD0, CHR 0xB1, CHR 0xD0,
     CHR 0xBA, CHR 0xD0, CHR 0xB0] @ '' '' @ [CHR 0xD0, CHR 0xBE, CHR 0xD0, CHR 0xB1, CHR 0xD1,
     CHR 0x80, CHR 0xD0, CHR 0xB0, CHR 0xD0, CHR 0xB1, CHR 0xD0, CHR 0xBE, CHR 0xD1, CHR 0x82,
     CHR 0xD0, CHR 0xBA, CHR 0xD0, CHR 0xB8] @ '': ''"

definition MSG_CRITICAL :: string where
  "MSG_CRITICAL =
     [CHR 0xD0, CHR 0x9A, CHR 0xD1, CHR 0x80, CHR 0xD0, CHR 0xB8, CHR 0xD1, CHR 0x82, CHR 0xD0,
     CHR 0xB8, CHR 0xD1, CHR 0x87, CHR 0xD0, CHR 0xB5, CHR 0xD1, CHR 0x81, CHR 0xD0, CHR 0xBA,
     CHR 0xD0, CHR 0xB0, CHR 0xD1, CHR 0x8F] @ '' '' @ [CHR 0xD0, CHR 0xBE, CHR 0xD1, CHR 0x88,
     CHR 0xD0, CHR 0xB8, CHR 0xD0, CHR 0xB1, CHR 0xD0, CHR 0xBA, CHR 0xD0, CHR 0xB0] @ '': ''"

section \<open>Configuration and the pure helpers\<close>

definition ALLOWED_EXTENSIONS :: "string list" where
  "ALLOWED_EXTENSIONS = [''docx'', ''csv'']"

text \<open>
  \<^verbatim>\<open>s.rsplit('.', 1)\<close>: the text before the last dot and the text after it, or the
  string alone when it has no dot.
\<close>

definition rsplit_dot :: "string \<Rightarrow> string list" where
  "rsplit_dot s =
     (if CHR ''.'' \<in> set s
      then [rev (tl (dropWhile (\<lambda>c. c \<noteq> CHR ''.'') (rev s))),
            rev (takeWhile (\<lambda>c. c \<noteq> CHR ''.'') (rev s))]
      else [s])"

text \<open>
  \<^verbatim>\<open>'.' in filename and filename.rsplit('.', 1)[1].lower() in ALLOWED_EXTENSIONS\<close>. The
  index 1 is read only when the string has a dot, where the list has two elements.
\<close>

definition allowed_file :: "string \<Rightarrow> bool" where
  "allowed_file filename \<longleftrightarrow>
     CHR ''.'' \<in> set filename \<and> lower (rsplit_dot filename ! 1) \<in> set ALLOWED_EXTENSIONS"

text \<open>
  The character class of \<^verbatim>\<open>re.sub(r'[<>:"/\\|?*]', '_', filename)\<close>: in the raw string the
  two backslashes are the regular expression's escape for one backslash.
\<close>

definition illegal_chars :: "char list" where
  "illegal_chars =
     [CHR ''<'', CHR ''>'', CHR '':'', CHR 0x22, CHR ''/'', CHR 0x5C, CHR ''|'', CHR ''?'',
      CHR ''*'']"

definition sanitize_filename :: "string \<Rightarrow> string" where
  "sanitize_filename filename =
     map (\<lambda>c. if c \<in> set illegal_chars then CHR ''_'' else c) filename"

section \<open>The file system\<close>

text \<open>
  The scratch storage is a list of directories and an association list from file paths to
  contents. The primitives fail only where the modelled state decides it (writing to a
  path that is a directory, creating a directory where a file stands); failures of the
  machine (a full disk, permissions) are outside the model.
\<close>

record filesystem =
  dirs :: "path list"
  files :: "(path \<times> bytes) list"

text \<open>\<^verbatim>\<open>os.path.join(a, b)\<close> on POSIX.\<close>

definition os_path_join :: "path \<Rightarrow> path \<Rightarrow> path" where
  "os_path_join a b =
     (if b \<noteq> [] \<and> hd b = CHR ''/'' then b
      else if a = [] \<or> last a = CHR ''/'' then a @ b
      else a @ ''/'' @ b)"

definition under :: "path \<Rightarrow> path \<Rightarrow> bool" where
  "under d p \<longleftrightarrow> p = d \<or> prefix (d @ ''/'') p"

definition read_file :: "path \<Rightarrow> filesystem \<Rightarrow> bytes option" where
  "read_file p fs = map_of (files fs) p"

definition path_exists :: "path \<Rightarrow> filesystem \<Rightarrow> bool" where
  "path_exists p fs \<longleftrightarrow> p \<in> set (dirs fs) \<or> p \<in> set (map fst (files fs))"

text \<open>\<^verbatim>\<open>FileStorage.save(p)\<close> and \<^verbatim>\<open>doc.save(p)\<close>: open the path for writing and write.\<close>

definition save :: "path \<Rightarrow> bytes \<Rightarrow> filesystem \<Rightarrow> exn + filesystem" where
  "save p c fs =
     (if p \<in> set (dirs fs) \<or> (p \<noteq> [] \<and> last p = CHR ''/'')
      then Inl (''[Errno 21] Is a directory: '' @ quoted p)
      else Inr (fs\<lparr>files := AList.update p c (files fs)\<rparr>))"

definition os_remove :: "path \<Rightarrow> filesystem \<Rightarrow> filesystem" where
  "os_remove p fs = fs\<lparr>files := AList.delete p (files fs)\<rparr>"

text \<open>
  \<^verbatim>\<open>os.makedirs(child, exist_ok=True)\<close> where \<open>parent\<close> is the directory of \<open>child\<close>: both
  are created when missing; a file standing at either path makes the call raise.
\<close>

definition makedirs :: "path \<Rightarrow> path \<Rightarrow> filesystem \<Rightarrow> exn + filesystem" where
  "makedirs parent child fs =
     (if parent \<in> set (map fst (files fs))
      then Inl (''[Errno 20] Not a directory: '' @ quoted child)
      else if child \<in> set (map fst (files fs))
      then Inl (''[Errno 17] File exists: '' @ quoted child)
      else Inr (fs\<lparr>dirs := List.insert child (List.insert parent (dirs fs))\<rparr>))"

text \<open>\<^verbatim>\<open>shutil.rmtree(d)\<close>: the directory and everything below it.\<close>

definition rmtree :: "path \<Rightarrow> filesystem \<Rightarrow> filesystem" where
  "rmtree d fs =
     fs\<lparr>dirs := filter (\<lambda>p. \<not> under d p) (dirs fs),
        files := filter (\<lambda>pc. \<not> under d (fst pc)) (files fs)\<rparr>"

text \<open>Whether anything of the tree rooted at \<open>d\<close> is left: the directory or a path below.\<close>

definition tree_present :: "path \<Rightarrow> filesystem \<Rightarrow> bool" where
  "tree_present d fs \<longleftrightarrow>
     list_ex (under d) (dirs fs) \<or> list_ex (under d) (map fst (files fs))"

text \<open>
  The walk of the archive builder: every file below \<open>root\<close> with its path relative to
  \<open>root\<close> (\<^verbatim>\<open>os.walk\<close>, \<^verbatim>\<open>os.path.relpath\<close>).
\<close>

definition walk_files :: "path \<Rightarrow> filesystem \<Rightarrow> (path \<times> bytes) list" where
  "walk_files root fs =
     map (\<lambda>pc. (drop (length root + 1) (fst pc), snd pc))
       (filter (\<lambda>pc. prefix (root @ ''/'') (fst pc)) (files fs))"

section \<open>Requests, responses and the external collaborators\<close>

text \<open>A werkzeug \<^verbatim>\<open>FileStorage\<close>, and the two dictionaries of a request the handlers read.\<close>

record upload =
  filename :: string
  content :: bytes

record request =
  req_files :: "(string \<times> upload) list"
  req_form :: "(string \<times> string) list"

text \<open>
  What \<^verbatim>\<open>json.loads\<close> returns. A float keeps its source text: the program never
  computes with it.
\<close>

datatype json =
    JNull
  | JBool bool
  | JInt int
  | JFloat string
  | JStr string
  | JArr "json list"
  | JObj "(string \<times> json) list"

text \<open>
  A data frame of pandas: its column names and its rows, each row (a \<^verbatim>\<open>Series\<close> whose
  index is the column names) an association list from column name to cell. The cells
  have a type \<open>'v\<close> of their own; \<open>str_of\<close> below is Python's \<^verbatim>\<open>str\<close> on them.
\<close>

type_synonym 'v row = "(string \<times> 'v) list"

record 'v dataframe =
  columns :: "string list"
  records :: "'v row list"

text \<open>
  The libraries the program calls are parameters of the model: each is a function of the
  bytes it reads, returning its result or the exception it raises.
  \<^item> \<open>secure_filename\<close>: werkzeug's function;
  \<^item> \<open>upload_folder\<close>: \<^verbatim>\<open>tempfile.gettempdir()\<close>; \<open>mkdtemp\<close>: the name \<^verbatim>\<open>tempfile.mkdtemp()\<close> picks;
  \<^item> \<open>json_loads\<close>: \<^verbatim>\<open>json.loads\<close>;
  \<^item> \<open>read_csv\<close>: \<^verbatim>\<open>pd.read_csv(_, sep=';', encoding=e, nrows=n)\<close> on the bytes of the file
    (\<open>None\<close> for a call without \<^verbatim>\<open>nrows\<close>);
  \<^item> \<open>get_undeclared_variables\<close>, \<open>render\<close>: docxtpl on the bytes of the template
    (\<open>render\<close> stands for \<^verbatim>\<open>DocxTemplate(p)\<close>, \<^verbatim>\<open>doc.render(context)\<close> and the bytes
    \<^verbatim>\<open>doc.save\<close> writes);
  \<^item> \<open>docx2pdf\<close>: \<^verbatim>\<open>convert\<close> on the bytes of the document;
  \<^item> \<open>str_of\<close>: \<^verbatim>\<open>str\<close> on a cell; \<open>now\<close>: \<^verbatim>\<open>datetime.now().strftime('%Y%m%d_%H%M%S')\<close>.
\<close>

record 'v env =
  secure_filename :: "string \<Rightarrow> string"
  upload_folder :: path
  mkdtemp :: "filesystem \<Rightarrow> path"
  json_loads :: "string \<Rightarrow> exn + json"
  read_csv :: "string \<Rightarrow> nat option \<Rightarrow> bytes \<Rightarrow> exn + 'v dataframe"
  get_undeclared_variables :: "bytes \<Rightarrow> exn + string list"
  render :: "bytes \<Rightarrow> (string \<rightharpoonup> string) \<Rightarrow> exn + bytes"
  docx2pdf :: "bytes \<Rightarrow> exn + bytes"
  str_of :: "'v \<Rightarrow> string"
  now :: string

datatype 'v body =
    Error string
  | Variables "string list"
  | CsvPreview "string list" "'v list list" nat
  | ZipFile string "(path \<times> bytes) list"

type_synonym 'v response = "filesystem \<times> nat \<times> 'v body"

definition no_such_file :: "path \<Rightarrow> exn" where
  "no_such_file p = ''[Errno 2] No such file or directory: '' @ quoted p"

definition pd_read_csv ::
  "'v env \<Rightarrow> path \<Rightarrow> string \<Rightarrow> nat option \<Rightarrow> filesystem \<Rightarrow> exn + 'v dataframe" where
  "pd_read_csv env file_path encoding nrows fs =
     (case read_file file_path fs of
        None \<Rightarrow> Inl (no_such_file file_path)
      | Some b \<Rightarrow> read_csv env encoding nrows b)"

definition undeclared_variables :: "'v env \<Rightarrow> path \<Rightarrow> filesystem \<Rightarrow> exn + string list" where
  "undeclared_variables env template_path fs =
     (case read_file template_path fs of
        None \<Rightarrow> Inl (no_such_file template_path)
      | Some t \<Rightarrow> get_undeclared_variables env t)"

definition render_template ::
  "'v env \<Rightarrow> path \<Rightarrow> (string \<rightharpoonup> string) \<Rightarrow> filesystem \<Rightarrow> exn + bytes" where
  "render_template env template_path ctx fs =
     (case read_file template_path fs of
        None \<Rightarrow> Inl (no_such_file template_path)
      | Some t \<Rightarrow> render env t ctx)"

section \<open>The encoding detector and the column reader\<close>

definition encodings :: "string list" where
  "encodings = [''utf-8'', ''utf-8-sig'', ''latin-1'', ''cp1252'', ''iso-8859-1'']"

text \<open>
  The loop of \<^verbatim>\<open>detect_csv_encoding\<close> over the encodings still to try: the probe is
  \<^verbatim>\<open>pd.read_csv(file_path, sep=';', encoding=encoding, nrows=1)\<close>, the bare \<^verbatim>\<open>except\<close>
  catches whatever it raises, and \<^verbatim>\<open>'utf-8'\<close> is returned after the loop.
\<close>

fun try_encodings :: "'v env \<Rightarrow> path \<Rightarrow> filesystem \<Rightarrow> string list \<Rightarrow> string" where
  "try_encodings env file_path fs [] = ''utf-8''"
| "try_encodings env file_path fs (encoding # rest) =
     (case pd_read_csv env file_path encoding (Some 1) fs of
        Inr df \<Rightarrow> encoding
      | Inl e \<Rightarrow> try_encodings env file_path fs rest)"

definition detect_csv_encoding :: "'v env \<Rightarrow> path \<Rightarrow> filesystem \<Rightarrow> string" where
  "detect_csv_encoding env file_path fs = try_encodings env file_path fs encodings"

definition get_csv_columns :: "'v env \<Rightarrow> path \<Rightarrow> filesystem \<Rightarrow> string list option" where
  "get_csv_columns env file_path fs =
     (case pd_read_csv env file_path (detect_csv_encoding env file_path fs) (Some 0) fs of
        Inr df \<Rightarrow> Some (columns df)
      | Inl e \<Rightarrow> None)"

section \<open>The preview handlers\<close>

text \<open>
  A handler takes the request and the file system and returns the file system it leaves,
  the status and the body of the response.
\<close>

definition preview_template :: "'v env \<Rightarrow> request \<Rightarrow> filesystem \<Rightarrow> 'v response" where
  "preview_template env req fs =
     (case map_of (req_files req) ''template'' of
        None \<Rightarrow> (fs, 400, Error MSG_TEMPLATE_MISSING)
      | Some template_file \<Rightarrow>
          if filename template_file = [] then (fs, 400, Error MSG_TEMPLATE_EMPTY)
          else if \<not> allowed_file (filename template_file)
          then (fs, 400, Error MSG_TEMPLATE_FORMAT)
          else
            let temp_path =
                  os_path_join (upload_folder env) (secure_filename env (filename template_file))
            in (case save temp_path (content template_file) fs of
                  Inl e \<Rightarrow> (fs, 500, Error (MSG_UNKNOWN @ e))
                | Inr fs1 \<Rightarrow>
                    (case undeclared_variables env temp_path fs1 of
                       Inr variables \<Rightarrow> (os_remove temp_path fs1, 200, Variables variables)
                     | Inl e \<Rightarrow>
                         (if path_exists temp_path fs1 then os_remove temp_path fs1 else fs1,
                          400, Error (MSG_TEMPLATE_READ @ e)))))"

definition preview_csv :: "'v env \<Rightarrow> request \<Rightarrow> filesystem \<Rightarrow> 'v response" where
  "preview_csv env req fs =
     (case map_of (req_files req) ''csv'' of
        None \<Rightarrow> (fs, 400, Error MSG_CSV_MISSING)
      | Some csv_file \<Rightarrow>
          if filename csv_file = [] then (fs, 400, Error MSG_CSV_EMPTY)
          else if \<not> allowed_file (filename csv_file)
          then (fs, 400, Error MSG_CSV_FORMAT)
          else
            let temp_path =
                  os_path_join (upload_folder env) (secure_filename env (filename csv_file))
            in (case save temp_path (content csv_file) fs of
                  Inl e \<Rightarrow> (fs, 500, Error (MSG_UNKNOWN @ e))
                | Inr fs1 \<Rightarrow>
                    (case pd_read_csv env temp_path (detect_csv_encoding env temp_path fs1) None fs1 of
                       Inr df \<Rightarrow>
                         (os_remove temp_path fs1, 200,
                          CsvPreview (columns df) (map (map snd) (take 3 (records df)))
                            (length (records df)))
                     | Inl e \<Rightarrow>
                         (if path_exists temp_path fs1 then os_remove temp_path fs1 else fs1,
                          400, Error (MSG_CSV_READ @ e)))))"

section \<open>Generation\<close>

text \<open>
  \<^verbatim>\<open>json.loads(mapping) if mapping != '{}' else {}\<close> under a bare \<^verbatim>\<open>except\<close>, with
  \<^verbatim>\<open>mapping = request.form.get('mapping', '{}')\<close>.
\<close>

definition parse_mapping :: "'v env \<Rightarrow> request \<Rightarrow> json" where
  "parse_mapping env req =
     (let mapping = (case map_of (req_form req) ''mapping'' of None \<Rightarrow> ''{}'' | Some m \<Rightarrow> m)
      in if mapping \<noteq> ''{}''
         then (case json_loads env mapping of Inr j \<Rightarrow> j | Inl e \<Rightarrow> JObj [])
         else JObj [])"

fun python_type :: "json \<Rightarrow> string" where
  "python_type JNull = ''NoneType''"
| "python_type (JBool b) = ''bool''"
| "python_type (JInt i) = ''int''"
| "python_type (JFloat f) = ''float''"
| "python_type (JStr s) = ''str''"
| "python_type (JArr xs) = ''list''"
| "python_type (JObj kvs) = ''dict''"

text \<open>
  \<^verbatim>\<open>field_mapping.get(var_name, var_name)\<close>: only a dictionary has the method; on any other
  JSON value the call raises \<^verbatim>\<open>AttributeError\<close>.
\<close>

fun field_mapping_get :: "json \<Rightarrow> string \<Rightarrow> exn + json" where
  "field_mapping_get (JObj kvs) var_name =
     Inr (case map_of kvs var_name of Some c \<Rightarrow> c | None \<Rightarrow> JStr var_name)"
| "field_mapping_get j var_name =
     Inl (quoted (python_type j) @ '' object has no attribute '' @ quoted ''get'')"

text \<open>
  \<^verbatim>\<open>csv_column in row.index\<close> and, when it holds, \<^verbatim>\<open>row[csv_column]\<close>. The labels of the
  index are the column names, which are strings: a string is looked up, a list or a
  dictionary cannot be hashed (\<^verbatim>\<open>TypeError\<close>), any other value is not a label.
\<close>

fun row_lookup :: "json \<Rightarrow> 'v row \<Rightarrow> exn + 'v option" where
  "row_lookup (JStr c) row = Inr (map_of row c)"
| "row_lookup (JArr xs) row = Inl (''unhashable type: '' @ quoted ''list'')"
| "row_lookup (JObj kvs) row = Inl (''unhashable type: '' @ quoted ''dict'')"
| "row_lookup j row = Inr None"

text \<open>
  The inner loop over the placeholders of the template, filling the dictionary
  \<^verbatim>\<open>context\<close>.
\<close>

fun build_context ::
  "'v env \<Rightarrow> json \<Rightarrow> 'v row \<Rightarrow> string list \<Rightarrow> (string \<rightharpoonup> string) \<Rightarrow> exn + (string \<rightharpoonup> string)"
where
  "build_context env field_mapping row [] ctx = Inr ctx"
| "build_context env field_mapping row (var_name # rest) ctx =
     (case field_mapping_get field_mapping var_name of
        Inl e \<Rightarrow> Inl e
      | Inr csv_column \<Rightarrow>
          (case row_lookup csv_column row of
             Inl e \<Rightarrow> Inl e
           | Inr (Some v) \<Rightarrow>
               build_context env field_mapping row rest (ctx(var_name \<mapsto> str_of env v))
           | Inr None \<Rightarrow>
               build_context env field_mapping row rest
                 (ctx(var_name \<mapsto> ''['' @ var_name @ '']''))))"

text \<open>
  The base name of a row's documents, \<^verbatim>\<open>f"{safe_email}_{safe_org}"\<close>; \<open>idx\<close> is the label
  \<^verbatim>\<open>iterrows\<close> gives the row, its zero-based position.
\<close>

definition base_name :: "'v env \<Rightarrow> nat \<Rightarrow> 'v row \<Rightarrow> string" where
  "base_name env idx row =
     (let email = (case map_of row ''Email'' of
                     Some v \<Rightarrow> str_of env v
                   | None \<Rightarrow> ''row_'' @ str_nat idx);
          org = (case map_of row ORG_FIELD of Some v \<Rightarrow> str_of env v | None \<Rightarrow> []);
          safe_email = sanitize_filename email;
          safe_org = (if org \<noteq> [] then sanitize_filename org else ''doc_'' @ str_nat idx)
      in safe_email @ ''_'' @ safe_org)"

text \<open>
  The body of the \<^verbatim>\<open>try\<close> of one row: the file system it leaves, or the exception that
  ends it. A failed conversion to PDF is swallowed by the inner \<^verbatim>\<open>except: pass\<close>.
\<close>

definition process_row ::
  "'v env \<Rightarrow> path \<Rightarrow> path \<Rightarrow> path \<Rightarrow> json \<Rightarrow> nat \<Rightarrow> 'v row \<Rightarrow> filesystem \<Rightarrow> exn + filesystem"
where
  "process_row env template_path output_folder pdf_folder field_mapping idx row fs =
     (case undeclared_variables env template_path fs of
        Inl e \<Rightarrow> Inl e
      | Inr vars \<Rightarrow>
     (case build_context env field_mapping row vars Map.empty of
        Inl e \<Rightarrow> Inl e
      | Inr ctx \<Rightarrow>
     (case render_template env template_path ctx fs of
        Inl e \<Rightarrow> Inl e
      | Inr doc \<Rightarrow>
          let docx_path = os_path_join output_folder (base_name env idx row @ ''.docx'');
              pdf_path = os_path_join pdf_folder (base_name env idx row @ ''.pdf'')
          in (case save docx_path doc fs of
                Inl e \<Rightarrow> Inl e
              | Inr fs1 \<Rightarrow>
                  Inr (case docx2pdf env doc of
                         Inl e \<Rightarrow> fs1
                       | Inr pdf \<Rightarrow>
                           (case save pdf_path pdf fs1 of Inl e \<Rightarrow> fs1 | Inr fs2 \<Rightarrow> fs2))))))"

record gen_state =
  gfs :: filesystem
  success_count :: nat
  error_list :: "string list"

text \<open>One pass of the loop body for row \<open>idx\<close>, with its \<^verbatim>\<open>except Exception\<close>.\<close>

definition row_step ::
  "'v env \<Rightarrow> path \<Rightarrow> path \<Rightarrow> path \<Rightarrow> json \<Rightarrow> nat \<Rightarrow> 'v row \<Rightarrow> gen_state \<Rightarrow> gen_state"
where
  "row_step env template_path output_folder pdf_folder field_mapping idx row st =
     (case process_row env template_path output_folder pdf_folder field_mapping idx row (gfs st) of
        Inr fs1 \<Rightarrow> st\<lparr>gfs := fs1, success_count := success_count st + 1\<rparr>
      | Inl e \<Rightarrow>
          st\<lparr>error_list := error_list st @ [MSG_ROW @ str_nat (idx + 1) @ '': '' @ e]\<rparr>)"

text \<open>\<^verbatim>\<open>for idx, row in data.iterrows()\<close>, from the row labelled \<open>idx\<close> on.\<close>

fun generate_rows ::
  "'v env \<Rightarrow> path \<Rightarrow> path \<Rightarrow> path \<Rightarrow> json \<Rightarrow> nat \<Rightarrow> 'v row list \<Rightarrow> gen_state \<Rightarrow> gen_state"
where
  "generate_rows env template_path output_folder pdf_folder field_mapping idx [] st = st"
| "generate_rows env template_path output_folder pdf_folder field_mapping idx (row # rest) st =
     generate_rows env template_path output_folder pdf_folder field_mapping (Suc idx) rest
       (row_step env template_path output_folder pdf_folder field_mapping idx row st)"

text \<open>
  The inner \<^verbatim>\<open>try\<close> of \<^verbatim>\<open>generate_documents\<close>, entered with the work directory created:
  \<open>Inr\<close> is a \<^verbatim>\<open>return\<close> of the body, \<open>Inl\<close> an exception with the file system at the
  moment it is raised.
\<close>

definition generate_body ::
  "'v env \<Rightarrow> upload \<Rightarrow> upload \<Rightarrow> json \<Rightarrow> path \<Rightarrow> filesystem \<Rightarrow> (filesystem \<times> exn) + 'v response"
where
  "generate_body env template_file csv_file field_mapping work_dir fs =
     (let template_path = os_path_join work_dir (secure_filename env (filename template_file));
          csv_path = os_path_join work_dir (secure_filename env (filename csv_file))
      in
     (case save template_path (content template_file) fs of
        Inl e \<Rightarrow> Inl (fs, e)
      | Inr fs1 \<Rightarrow>
     (case save csv_path (content csv_file) fs1 of
        Inl e \<Rightarrow> Inl (fs1, e)
      | Inr fs2 \<Rightarrow>
     (case pd_read_csv env csv_path (detect_csv_encoding env csv_path fs2) None fs2 of
        Inl e \<Rightarrow> Inl (fs2, e)
      | Inr data \<Rightarrow>
          let output_folder = os_path_join work_dir ''output_docs'';
              pdf_folder = os_path_join output_folder ''pdf_files''
          in
     (case makedirs output_folder pdf_folder fs2 of
        Inl e \<Rightarrow> Inl (fs2, e)
      | Inr fs3 \<Rightarrow>
          let st = generate_rows env template_path output_folder pdf_folder field_mapping 0
                     (records data) \<lparr>gfs = fs3, success_count = 0, error_list = []\<rparr>
          in if success_count st = 0
             then Inr (gfs st, 400,
                       Error (MSG_NO_DOCUMENTS @ join '', '' (take 3 (error_list st))))
             else Inr (rmtree work_dir (gfs st), 200,
                       ZipFile (''documents_'' @ now env @ ''.zip'')
                         (walk_files output_folder (gfs st))))))))"

text \<open>
  \<^verbatim>\<open>generate_documents\<close>. No extension is checked here. The handler of the inner \<^verbatim>\<open>try\<close>
  removes the work directory and answers 400. Nothing of the model raises outside the
  inner \<^verbatim>\<open>try\<close>, so the outer handler (500) has no branch.
\<close>

definition generate_documents :: "'v env \<Rightarrow> request \<Rightarrow> filesystem \<Rightarrow> 'v response" where
  "generate_documents env req fs =
     (case (map_of (req_files req) ''template'', map_of (req_files req) ''csv'') of
        (Some template_file, Some csv_file) \<Rightarrow>
          if filename template_file = [] \<or> filename csv_file = []
          then (fs, 400, Error MSG_NOT_SELECTED)
          else
            let field_mapping = parse_mapping env req;
                work_dir = mkdtemp env fs
            in (case generate_body env template_file csv_file field_mapping work_dir
                       (fs\<lparr>dirs := work_dir # dirs fs\<rparr>) of
                  Inr r \<Rightarrow> r
                | Inl (fs_e, e) \<Rightarrow> (rmtree work_dir fs_e, 400, Error (MSG_PROCESSING @ e)))
      | _ \<Rightarrow> (fs, 400, Error MSG_BOTH_REQUIRED))"

section \<open>Notions of the statements\<close>

text \<open>A path that names a DOCX file.\<close>

definition is_docx :: "path \<Rightarrow> bool" where
  "is_docx p \<longleftrightarrow> suffix ''.docx'' p"

section \<open>Example collaborators\<close>

text \<open>
  A small instance of the collaborators, on which the theorems below are run. Cells are
  strings. The CSV parser knows five files by their bytes; the file \<open>latin\<close> has an ASCII
  header and a first data row that is not valid UTF-8, so under the two UTF-8 encodings
  only a parse of the header alone (\<^verbatim>\<open>nrows=0\<close>) succeeds. The template engine knows the
  template \<open>tpl\<close>, with the placeholders \<open>Name\<close> and \<open>Phone\<close>, and fails to render the name
  \<open>!\<close>. There is no PDF converter.
\<close>

definition demo_row :: "string \<Rightarrow> string \<Rightarrow> string \<Rightarrow> string row" where
  "demo_row email org name = [(''Email'', email), (ORG_FIELD, org), (''Name'', name)]"

definition demo_tables :: "(bytes \<times> string row list) list" where
  "demo_tables =
     [(''one'', [demo_row ''a@x.org'' ''Acme'' ''Ann'']),
      (''dup'', [demo_row ''a@x.org'' ''Acme'' ''Ann'', demo_row ''a@x.org'' ''Acme'' ''Bob'']),
      (''mix'', [demo_row ''a@x.org'' ''Acme'' ''Ann'', demo_row ''b@x.org'' ''B/C'' ''!'',
                 demo_row ''c@x.org'' [] ''Cy'']),
      (''none'', []),
      (''latin'', [demo_row ''d@x.org'' ''Dot'' ''Dee''])]"

definition demo_read_csv :: "string \<Rightarrow> nat option \<Rightarrow> bytes \<Rightarrow> exn + string dataframe" where
  "demo_read_csv encoding nrows b =
     (if b = ''latin'' \<and> encoding \<in> set [''utf-8'', ''utf-8-sig''] \<and> nrows \<noteq> Some 0
      then Inl ''invalid continuation byte''
      else (case map_of demo_tables b of
              None \<Rightarrow> Inl ''No columns to parse from file''
            | Some rows \<Rightarrow>
                Inr \<lparr>columns = [''Email'', ORG_FIELD, ''Name''],
                     records = (case nrows of None \<Rightarrow> rows | Some n \<Rightarrow> take n rows)\<rparr>))"

definition demo_render :: "bytes \<Rightarrow> (string \<rightharpoonup> string) \<Rightarrow> exn + bytes" where
  "demo_render t ctx =
     (if t \<noteq> ''tpl'' then Inl ''File is not a zip file''
      else (case (ctx ''Name'', ctx ''Phone'') of
              (Some n, Some p) \<Rightarrow>
                if n = ''!'' then Inl ''unexpected char'' else Inr (''Dear '' @ n @ '' '' @ p)
            | _ \<Rightarrow> Inl ''undefined''))"

definition demo_env :: "string env" where
  "demo_env =
     \<lparr>secure_filename = (\<lambda>s. s),
      upload_folder = ''/tmp'',
      mkdtemp = (\<lambda>fs. ''/tmp/w''),
      json_loads = (\<lambda>s. if s = ''[]'' then Inr (JArr []) else Inl ''Expecting value''),
      read_csv = demo_read_csv,
      get_undeclared_variables =
        (\<lambda>t. if t = ''tpl'' then Inr [''Name'', ''Phone''] else Inl ''File is not a zip file''),
      render = demo_render,
      docx2pdf = (\<lambda>d. Inl ''no converter''),
      str_of = (\<lambda>v. v),
      now = ''20240101_120000''\<rparr>"

definition demo_fs :: filesystem where
  "demo_fs = \<lparr>dirs = [''/tmp''], files = []\<rparr>"

definition demo_request :: "string \<Rightarrow> string \<Rightarrow> bytes \<Rightarrow> (string \<times> string) list \<Rightarrow> request" where
  "demo_request template_name csv_name csv_bytes form =
     \<lparr>req_files = [(''template'', \<lparr>filename = template_name, content = ''tpl''\<rparr>),
                   (''csv'', \<lparr>filename = csv_name, content = csv_bytes\<rparr>)],
      req_form = form\<rparr>"

subsection \<open>Cells as pandas reads them\<close>

text \<open>
  In the instance above a cell is the text of its field. \<^verbatim>\<open>pd.read_csv\<close> with its default
  settings does not deliver the empty string for an empty field: the empty string is one
  of its default missing-value markers, so the cell is the float NaN, and \<^verbatim>\<open>str\<close> of NaN
  is \<^verbatim>\<open>'nan'\<close>. The second instance has such cells: \<open>Text\<close> for a field with text, \<open>NaN\<close>
  for an empty one. Everything else is as in the first instance.
\<close>

datatype cell = Text string | NaN

fun str_cell :: "cell \<Rightarrow> string" where
  "str_cell (Text s) = s"
| "str_cell NaN = ''nan''"

definition to_cell :: "string \<Rightarrow> cell" where
  "to_cell field = (if field = [] then NaN else Text field)"

definition cell_row :: "string row \<Rightarrow> cell row" where
  "cell_row r = map (\<lambda>kv. (fst kv, to_cell (snd kv))) r"

definition cell_env :: "cell env" where
  "cell_env =
     \<lparr>secure_filename = secure_filename demo_env,
      upload_folder = upload_folder demo_env,
      mkdtemp = mkdtemp demo_env,
      json_loads = json_loads demo_env,
      read_csv =
        (\<lambda>encoding nrows b.
           case demo_read_csv encoding nrows b of
             Inl e \<Rightarrow> Inl e
           | Inr df \<Rightarrow> Inr \<lparr>columns = columns df, records = map cell_row (records df)\<rparr>),
      get_undeclared_variables = get_undeclared_variables demo_env,
      render = demo_render,
      docx2pdf = docx2pdf demo_env,
      str_of = str_cell,
      now = now demo_env\<rparr>"

section \<open>Evaluation of the example\<close>

lemmas demo_defs =
  demo_env_def demo_fs_def demo_request_def demo_render_def demo_read_csv_def demo_tables_def
  demo_row_def

lemmas run_defs =
  generate_documents_def generate_body_def parse_mapping_def save_def os_path_join_def
  pd_read_csv_def read_file_def detect_csv_encoding_def encodings_def makedirs_def
  row_step_def process_row_def undeclared_variables_def render_template_def base_name_def
  sanitize_filename_def illegal_chars_def rmtree_def under_def walk_files_def str_nat.simps
  digit_char_def

section \<open>The filename sanitizer\<close>




section \<open>The extension check and the preview handlers\<close>

lemma rsplit_dot_last:
  assumes "CHR ''.'' \<notin> set ext"
  shows "rsplit_dot (stem @ ''.'' @ ext) ! 1 = ext"
proof -
  let ?P = "\<lambda>c. c \<noteq> CHR ''.''"
  have "takeWhile ?P (rev ext @ CHR ''.'' # rev stem) = takeWhile ?P (rev ext)"
    by (simp add: takeWhile_tail)
  also have "\<dots> = rev ext"
    using assms by (intro iffD2 [OF takeWhile_eq_all_conv]) auto
  finally have tw: "takeWhile ?P (rev ext @ CHR ''.'' # rev stem) = rev ext" .
  show ?thesis
    by (simp add: rsplit_dot_def tw)
qed

lemma allowed_file_ext:
  "CHR ''.'' \<notin> set ext \<Longrightarrow>
     allowed_file (stem @ ''.'' @ ext) \<longleftrightarrow> lower ext \<in> set ALLOWED_EXTENSIONS"
  using rsplit_dot_last [of ext stem] by (simp add: allowed_file_def)

lemma allowed_file_needs_dot: "CHR ''.'' \<notin> set name \<Longrightarrow> \<not> allowed_file name"
  by (simp add: allowed_file_def)

lemma preview_template_rejects:
  "\<not> allowed_file (filename f) \<Longrightarrow> map_of (req_files req) ''template'' = Some f \<Longrightarrow>
     \<exists>msg. preview_template env req fs = (fs, 400, Error msg)"
  by (simp add: preview_template_def)

lemma preview_csv_rejects:
  "\<not> allowed_file (filename f) \<Longrightarrow> map_of (req_files req) ''csv'' = Some f \<Longrightarrow>
     \<exists>msg. preview_csv env req fs = (fs, 400, Error msg)"
  by (simp add: preview_csv_def)

text \<open>
  Claim C10. For every filename that contains no dot the extension check returns false,
  so \<open>preview_template\<close> and \<open>preview_csv\<close> answer an upload with such a filename
  with status 400 and leave the file system as it was (nothing is persisted); and the
  check looks only at the text after the last dot, lowercased: a name \<open>stem.ext\<close> whose
  \<open>ext\<close> has no dot is allowed exactly when the lowercased \<open>ext\<close> is an allowed extension.
\<close>

theorem no_dot_rejected_by_previews:
  assumes "CHR ''.'' \<notin> set (filename f)"
  shows "\<not> allowed_file (filename f) \<and>
         (map_of (req_files req) ''template'' = Some f \<longrightarrow>
            (\<exists>msg. preview_template env req fs = (fs, 400, Error msg))) \<and>
         (map_of (req_files req) ''csv'' = Some f \<longrightarrow>
            (\<exists>msg. preview_csv env req fs = (fs, 400, Error msg))) \<and>
         (\<forall>stem ext. CHR ''.'' \<notin> set ext \<longrightarrow>
            allowed_file (stem @ ''.'' @ ext) = (lower ext \<in> set ALLOWED_EXTENSIONS))"
proof -
  have no: "\<not> allowed_file (filename f)"
    using assms by (rule allowed_file_needs_dot)
  show ?thesis
    using no preview_template_rejects [OF no] preview_csv_rejects [OF no] allowed_file_ext
    by blast
qed

theorem no_dot_rejected_by_previews_witness:
  "CHR ''.'' \<notin> set ''README'' \<and>
   \<not> allowed_file ''README'' \<and>
   preview_template demo_env
     \<lparr>req_files = [(''template'', \<lparr>filename = ''README'', content = ''tpl''\<rparr>)], req_form = []\<rparr>
     demo_fs = (demo_fs, 400, Error MSG_TEMPLATE_FORMAT) \<and>
   preview_csv demo_env
     \<lparr>req_files = [(''csv'', \<lparr>filename = ''README'', content = ''one''\<rparr>)], req_form = []\<rparr>
     demo_fs = (demo_fs, 400, Error MSG_CSV_FORMAT) \<and>
   allowed_file (''report.final'' @ ''.'' @ ''DocX'') \<and>
   \<not> allowed_file (''report.docx'' @ ''.'' @ ''txt'')"
proof -
  note T = no_dot_rejected_by_previews
    [where f = "\<lparr>filename = ''README'', content = ''tpl''\<rparr>" and env = demo_env and fs = demo_fs]
  have h: "CHR ''.'' \<notin> set (filename \<lparr>filename = ''README'', content = ''tpl''\<rparr>)"
    by simp
  from T [OF h] have a: "\<not> allowed_file ''README''"
    and ex: "\<forall>stem ext. CHR ''.'' \<notin> set ext \<longrightarrow>
               allowed_file (stem @ ''.'' @ ext) = (lower ext \<in> set ALLOWED_EXTENSIONS)"
    by simp_all
  have e1: "allowed_file (''report.final'' @ ''.'' @ ''DocX'')"
    using ex [rule_format, of "''DocX''" "''report.final''"]
    by (simp add: lower_def ascii_lower_def ALLOWED_EXTENSIONS_def)
  have e2: "\<not> allowed_file (''report.docx'' @ ''.'' @ ''txt'')"
    using ex [rule_format, of "''txt''" "''report.docx''"]
    by (simp add: lower_def ascii_lower_def ALLOWED_EXTENSIONS_def)
  show ?thesis
    using a e1 e2 by (simp add: preview_template_def preview_csv_def)
qed

section \<open>The encoding detector\<close>

lemma try_encodings_first:
  assumes "\<forall>x \<in> set pre. \<exists>err. pd_read_csv env p x (Some 1) fs = Inl err"
    and "pd_read_csv env p e (Some 1) fs = Inr df"
  shows "try_encodings env p fs (pre @ e # post) = e"
  using assms by (induction pre) auto

lemma try_encodings_none:
  assumes "\<forall>x \<in> set es. \<exists>err. pd_read_csv env p x (Some 1) fs = Inl err"
  shows "try_encodings env p fs es = ''utf-8''"
  using assms by (induction es) auto

lemma pd_read_csv_bytes:
  "read_file p' fs' = read_file p fs \<Longrightarrow>
     isl (pd_read_csv env p' enc n fs') = isl (pd_read_csv env p enc n fs)"
  by (simp add: pd_read_csv_def split: option.splits)

lemma try_encodings_bytes:
  "read_file p' fs' = read_file p fs \<Longrightarrow>
     try_encodings env p' fs' es = try_encodings env p fs es"
proof (induction es)
  case Nil
  then show ?case by simp
next
  case (Cons e es)
  from pd_read_csv_bytes [OF Cons.prems, of env e "Some 1"] Cons.IH [OF Cons.prems]
  show ?case
    by (cases "pd_read_csv env p' e (Some 1) fs'"; cases "pd_read_csv env p e (Some 1) fs") auto
qed

text \<open>
  Claim C7, as amended. For every CSV input the detector tries the fixed list of encodings
  in order and returns the first one under which the probe succeeds, where the probe is
  the parse of the header and at most one data row (\<^verbatim>\<open>nrows=1\<close>); when no probe succeeds
  it returns \<^verbatim>\<open>'utf-8'\<close>, the first of the list; and its result is a function of the bytes
  of the file alone.
\<close>

theorem detect_csv_encoding_first_probe:
  "(\<forall>pre e post.
      encodings = pre @ e # post \<and>
      (\<forall>x \<in> set pre. \<exists>err. pd_read_csv env p x (Some 1) fs = Inl err) \<and>
      (\<exists>df. pd_read_csv env p e (Some 1) fs = Inr df)
      \<longrightarrow> detect_csv_encoding env p fs = e) \<and>
   ((\<forall>x \<in> set encodings. \<exists>err. pd_read_csv env p x (Some 1) fs = Inl err)
      \<longrightarrow> detect_csv_encoding env p fs = ''utf-8'' \<and> hd encodings = ''utf-8'') \<and>
   (\<forall>p' fs'. read_file p' fs' = read_file p fs
      \<longrightarrow> detect_csv_encoding env p' fs' = detect_csv_encoding env p fs)"
proof (intro conjI allI impI)
  fix pre e post
  assume a: "encodings = pre @ e # post \<and>
      (\<forall>x \<in> set pre. \<exists>err. pd_read_csv env p x (Some 1) fs = Inl err) \<and>
      (\<exists>df. pd_read_csv env p e (Some 1) fs = Inr df)"
  then obtain df where ok: "pd_read_csv env p e (Some 1) fs = Inr df"
    by blast
  from a have fails: "\<forall>x \<in> set pre. \<exists>err. pd_read_csv env p x (Some 1) fs = Inl err"
    by blast
  from a have eq: "encodings = pre @ e # post"
    by blast
  have "try_encodings env p fs (pre @ e # post) = e"
    using fails ok by (rule try_encodings_first)
  then show "detect_csv_encoding env p fs = e"
    unfolding detect_csv_encoding_def eq .
next
  assume "\<forall>x \<in> set encodings. \<exists>err. pd_read_csv env p x (Some 1) fs = Inl err"
  then show "detect_csv_encoding env p fs = ''utf-8''"
    unfolding detect_csv_encoding_def by (rule try_encodings_none)
next
  show "hd encodings = ''utf-8''"
    by (simp add: encodings_def)
next
  fix p' fs'
  assume "read_file p' fs' = read_file p fs"
  then show "detect_csv_encoding env p' fs' = detect_csv_encoding env p fs"
    unfolding detect_csv_encoding_def by (rule try_encodings_bytes)
qed

theorem detect_csv_encoding_first_probe_witness:
  "detect_csv_encoding demo_env ''/tmp/d.csv''
     \<lparr>dirs = [''/tmp''], files = [(''/tmp/d.csv'', ''latin'')]\<rparr> = ''latin-1'' \<and>
   detect_csv_encoding demo_env ''/tmp/missing.csv''
     \<lparr>dirs = [''/tmp''], files = [(''/tmp/d.csv'', ''latin'')]\<rparr> = ''utf-8'' \<and>
   detect_csv_encoding demo_env ''/tmp/w/e.csv''
     \<lparr>dirs = [''/tmp/w''], files = [(''/tmp/w/e.csv'', ''latin'')]\<rparr> = ''latin-1''"
proof -
  let ?fs = "\<lparr>dirs = [''/tmp''], files = [(''/tmp/d.csv'', ''latin'')]\<rparr>"
  let ?fs' = "\<lparr>dirs = [''/tmp/w''], files = [(''/tmp/w/e.csv'', ''latin'')]\<rparr>"
  note T = detect_csv_encoding_first_probe [where env = demo_env and fs = ?fs]
  have split: "encodings = [''utf-8'', ''utf-8-sig''] @ ''latin-1'' # [''cp1252'', ''iso-8859-1'']"
    by (simp add: encodings_def)
  have fails: "\<forall>x \<in> set [''utf-8'', ''utf-8-sig''].
      \<exists>err. pd_read_csv demo_env ''/tmp/d.csv'' x (Some 1) ?fs = Inl err"
    by (simp add: pd_read_csv_def read_file_def demo_defs)
  have ok: "\<exists>df. pd_read_csv demo_env ''/tmp/d.csv'' ''latin-1'' (Some 1) ?fs = Inr df"
    by (simp add: pd_read_csv_def read_file_def demo_defs)
  have first: "detect_csv_encoding demo_env ''/tmp/d.csv'' ?fs = ''latin-1''"
    using T [where p = "''/tmp/d.csv''"] split fails ok by blast
  have none: "\<forall>x \<in> set encodings.
      \<exists>err. pd_read_csv demo_env ''/tmp/missing.csv'' x (Some 1) ?fs = Inl err"
    by (simp add: pd_read_csv_def read_file_def)
  have dflt: "detect_csv_encoding demo_env ''/tmp/missing.csv'' ?fs = ''utf-8''"
    using T [where p = "''/tmp/missing.csv''"] none by blast
  have same: "read_file ''/tmp/w/e.csv'' ?fs' = read_file ''/tmp/d.csv'' ?fs"
    by (simp add: read_file_def)
  have det: "detect_csv_encoding demo_env ''/tmp/w/e.csv'' ?fs' =
             detect_csv_encoding demo_env ''/tmp/d.csv'' ?fs"
    using T [where p = "''/tmp/d.csv''"] same by blast
  show ?thesis
    using first dflt det by simp
qed

text \<open>
  Claim C7 as stated speaks of a header-only parse. On the file \<open>latin\<close> the header-only
  parse (\<^verbatim>\<open>nrows=0\<close>) succeeds under \<^verbatim>\<open>'utf-8'\<close>, the first encoding of the list, yet the
  detector returns \<^verbatim>\<open>'latin-1'\<close>: its probe also reads the first data row.
\<close>

theorem detect_header_only_counterexample:
  "hd encodings = ''utf-8'' \<and>
   pd_read_csv demo_env ''/tmp/d.csv'' ''utf-8'' (Some 0)
     \<lparr>dirs = [''/tmp''], files = [(''/tmp/d.csv'', ''latin'')]\<rparr> =
     Inr \<lparr>columns = [''Email'', ORG_FIELD, ''Name''], records = []\<rparr> \<and>
   detect_csv_encoding demo_env ''/tmp/d.csv''
     \<lparr>dirs = [''/tmp''], files = [(''/tmp/d.csv'', ''latin'')]\<rparr> = ''latin-1''"
  by (simp add: detect_csv_encoding_def encodings_def pd_read_csv_def read_file_def demo_defs)

section \<open>The field mapping of a request\<close>

lemma parse_mapping_absent:
  "map_of (req_form req) ''mapping'' = None \<Longrightarrow> parse_mapping env req = JObj []"
  by (simp add: parse_mapping_def)

lemma parse_mapping_unparsable:
  "map_of (req_form req) ''mapping'' = Some s \<Longrightarrow> json_loads env s = Inl e \<Longrightarrow>
     parse_mapping env req = JObj []"
  by (simp add: parse_mapping_def)

lemma parse_mapping_braces:
  "parse_mapping env (req\<lparr>req_form := [(''mapping'', ''{}'')]\<rparr>) = JObj []"
  by (simp add: parse_mapping_def)

lemma generate_documents_mapping_only:
  "parse_mapping env req' = parse_mapping env req \<Longrightarrow> req_files req' = req_files req \<Longrightarrow>
     generate_documents env req' fs = generate_documents env req fs"
  by (simp add: generate_documents_def split: option.splits)

text \<open>
  Claim C8. When the form field \<open>mapping\<close> is absent, or is present and \<^verbatim>\<open>json.loads\<close>
  raises on it, the field mapping used for generation is the empty dictionary, and the
  request is answered exactly as the same request with the mapping \<^verbatim>\<open>{}\<close>: it is not
  rejected for that reason.
\<close>

theorem unparsable_mapping_is_empty:
  assumes "map_of (req_form req) ''mapping'' = None \<or>
           (\<exists>s e. map_of (req_form req) ''mapping'' = Some s \<and> json_loads env s = Inl e)"
  shows "parse_mapping env req = JObj [] \<and>
         generate_documents env req fs =
           generate_documents env (req\<lparr>req_form := [(''mapping'', ''{}'')]\<rparr>) fs"
proof -
  have empty: "parse_mapping env req = JObj []"
    using assms parse_mapping_absent parse_mapping_unparsable by blast
  have "generate_documents env (req\<lparr>req_form := [(''mapping'', ''{}'')]\<rparr>) fs =
        generate_documents env req fs"
    by (rule generate_documents_mapping_only) (simp_all add: empty parse_mapping_braces)
  with empty show ?thesis
    by simp
qed

theorem unparsable_mapping_is_empty_witness:
  "parse_mapping demo_env (demo_request ''letter.docx'' ''data.csv'' ''one'' [(''mapping'', ''{oops'')])
     = JObj [] \<and>
   generate_documents demo_env
     (demo_request ''letter.docx'' ''data.csv'' ''one'' [(''mapping'', ''{oops'')]) demo_fs =
     (demo_fs, 200,
      ZipFile ''documents_20240101_120000.zip'' [(''a@x.org_Acme.docx'', ''Dear Ann [Phone]'')])"
proof -
  let ?req = "demo_request ''letter.docx'' ''data.csv'' ''one'' [(''mapping'', ''{oops'')]"
  have h: "map_of (req_form ?req) ''mapping'' = None \<or>
           (\<exists>s e. map_of (req_form ?req) ''mapping'' = Some s \<and> json_loads demo_env s = Inl e)"
    by (simp add: demo_defs)
  have run: "generate_documents demo_env (?req\<lparr>req_form := [(''mapping'', ''{}'')]\<rparr>) demo_fs =
     (demo_fs, 200,
      ZipFile ''documents_20240101_120000.zip'' [(''a@x.org_Acme.docx'', ''Dear Ann [Phone]'')])"
    by (simp add: demo_defs run_defs ORG_FIELD_def)
  show ?thesis
    using unparsable_mapping_is_empty [OF h, of demo_fs] run by simp
qed

section \<open>The render context\<close>

lemma map_of_JStr:
  "map_of (map (\<lambda>(k, c). (k, JStr c)) m) k = map_option JStr (map_of m k)"
  by (induction m) auto

lemma build_context_mapping:
  "build_context env (JObj (map (\<lambda>(k, c). (k, JStr c)) m)) row vars ctx0 =
     Inr (\<lambda>k. if k \<in> set vars
               then Some (case map_of row (case map_of m k of Some c \<Rightarrow> c | None \<Rightarrow> k) of
                            Some v \<Rightarrow> str_of env v
                          | None \<Rightarrow> ''['' @ k @ '']'')
               else ctx0 k)"
proof (induction vars arbitrary: ctx0)
  case Nil
  then show ?case by simp
next
  case (Cons var_name rest)
  show ?case
    by (cases "map_of m var_name"; cases "map_of row var_name";
        cases "map_of row (the (map_of m var_name))")
       (auto simp: Cons.IH map_of_JStr fun_eq_iff)
qed

text \<open>
  Claim C4. For every row and every placeholder name of the template, the render context
  (the dictionary \<open>build_context\<close> fills from the empty one, which \<open>process_row\<close> hands to
  the renderer) maps the placeholder to the string value of the row at the column
  \<open>m[placeholder]\<close> if the field mapping \<open>m\<close> defines it and at the column named like the
  placeholder otherwise, when the row has that column, and to \<open>[placeholder]\<close> when it
  has not. The field mapping is a dictionary from placeholder names to column names; the
  context has exactly the placeholders as keys.
\<close>

theorem render_context_lookup:
  assumes "var_name \<in> set vars"
  shows "\<exists>ctx. build_context env (JObj (map (\<lambda>(k, c). (k, JStr c)) m)) row vars Map.empty = Inr ctx \<and>
           dom ctx = set vars \<and>
           ctx var_name =
             Some (case map_of row (case map_of m var_name of Some c \<Rightarrow> c | None \<Rightarrow> var_name) of
                     Some v \<Rightarrow> str_of env v
                   | None \<Rightarrow> ''['' @ var_name @ '']'')"
  using assms by (auto simp: build_context_mapping dom_def)

theorem render_context_lookup_witness:
  "\<exists>ctx. build_context demo_env (JObj (map (\<lambda>(k, c). (k, JStr c)) [(''Greeting'', ''Name'')]))
            (demo_row ''a@x.org'' ''Acme'' ''Ann'') [''Name'', ''Greeting'', ''Phone''] Map.empty = Inr ctx \<and>
         dom ctx = {''Name'', ''Greeting'', ''Phone''} \<and>
         ctx ''Name'' = Some ''Ann'' \<and> ctx ''Greeting'' = Some ''Ann'' \<and>
         ctx ''Phone'' = Some ''[Phone]''"
proof -
  let ?vars = "[''Name'', ''Greeting'', ''Phone'']"
  let ?m = "[(''Greeting'', ''Name'')]"
  let ?row = "demo_row ''a@x.org'' ''Acme'' ''Ann''"
  have h1: "''Name'' \<in> set ?vars" and h2: "''Greeting'' \<in> set ?vars" and h3: "''Phone'' \<in> set ?vars"
    by simp_all
  from render_context_lookup [OF h1, of demo_env ?m ?row]
       render_context_lookup [OF h2, of demo_env ?m ?row]
       render_context_lookup [OF h3, of demo_env ?m ?row]
  show ?thesis
    by (auto simp: demo_defs ORG_FIELD_def)
qed

section \<open>The documents of a row\<close>

lemma digit_char_legal: "d < 10 \<Longrightarrow> digit_char d \<notin> set illegal_chars"
proof -
  assume "d < 10"
  then have "d \<in> {0, 1, 2, 3, 4, 5, 6, 7, 8, 9}"
    by auto
  then show ?thesis
    by (auto simp: digit_char_def illegal_chars_def)
qed

lemma str_nat_legal: "set (str_nat n) \<inter> set illegal_chars = {}"
proof (induction n rule: str_nat.induct)
  case (1 n)
  show ?case
  proof (cases "n < 10")
    case True
    then show ?thesis
      using digit_char_legal [of n] by (subst str_nat.simps) simp
  next
    case False
    then show ?thesis
      using "1" digit_char_legal [of "n mod 10"] by (subst str_nat.simps) auto
  qed
qed

lemma sanitize_filename_id:
  "set s \<inter> set illegal_chars = {} \<Longrightarrow> sanitize_filename s = s"
  by (induction s) (auto simp: sanitize_filename_def)

lemma sanitize_row_default: "sanitize_filename (''row_'' @ str_nat idx) = ''row_'' @ str_nat idx"
proof -
  have "set ''row_'' \<inter> set illegal_chars = {}"
    by (simp add: illegal_chars_def)
  with str_nat_legal [of idx] have "set (''row_'' @ str_nat idx) \<inter> set illegal_chars = {}"
    by (simp only: set_append Int_Un_distrib2) simp
  then show ?thesis
    by (rule sanitize_filename_id)
qed

lemma base_name_eq:
  "base_name env idx row =
     (case map_of row ''Email'' of
        Some v \<Rightarrow> sanitize_filename (str_of env v)
      | None \<Rightarrow> ''row_'' @ str_nat idx) @ ''_'' @
     (case map_of row ORG_FIELD of
        Some v \<Rightarrow> if str_of env v = [] then ''doc_'' @ str_nat idx
                  else sanitize_filename (str_of env v)
      | None \<Rightarrow> ''doc_'' @ str_nat idx)"
  using sanitize_row_default [of idx]
  by (simp add: base_name_def Let_def split: option.splits)

lemma sanitize_filename_hd:
  "s \<noteq> [] \<Longrightarrow> hd (sanitize_filename s) \<noteq> CHR ''/''"
  by (cases s) (auto simp: sanitize_filename_def illegal_chars_def)

lemma base_name_hd: "base_name env idx row \<noteq> [] \<and> hd (base_name env idx row) \<noteq> CHR ''/''"
proof -
  obtain e where e: "base_name env idx row =
      sanitize_filename e @ ''_'' @
      (let org = (case map_of row ORG_FIELD of Some v \<Rightarrow> str_of env v | None \<Rightarrow> [])
       in if org \<noteq> [] then sanitize_filename org else ''doc_'' @ str_nat idx)"
    by (simp add: base_name_def Let_def)
  show ?thesis
  proof (cases e)
    case Nil
    then show ?thesis
      using e by (simp add: sanitize_filename_def)
  next
    case (Cons c cs)
    then have "e \<noteq> []"
      by simp
    from sanitize_filename_hd [OF this] Cons show ?thesis
      using e by (simp add: sanitize_filename_def)
  qed
qed

lemma os_path_join_relative:
  "b \<noteq> [] \<Longrightarrow> hd b \<noteq> CHR ''/'' \<Longrightarrow> a \<noteq> [] \<Longrightarrow> last a \<noteq> CHR ''/'' \<Longrightarrow>
     os_path_join a b = a @ ''/'' @ b"
  by (simp add: os_path_join_def)

lemma os_path_join_last: "b \<noteq> [] \<Longrightarrow> last (os_path_join a b) = last b"
  by (simp add: os_path_join_def)

lemma docx_pdf_distinct:
  "os_path_join a (x @ ''.docx'') \<noteq> os_path_join b (y @ ''.pdf'')"
proof
  assume "os_path_join a (x @ ''.docx'') = os_path_join b (y @ ''.pdf'')"
  then have "last (os_path_join a (x @ ''.docx'')) = last (os_path_join b (y @ ''.pdf''))"
    by simp
  then show False
    by (simp add: os_path_join_last)
qed

lemma save_read_same: "save p c fs = Inr fs' \<Longrightarrow> read_file p fs' = Some c"
  by (auto simp: save_def read_file_def update_conv' split: if_splits)

lemma save_read_other: "save q c fs = Inr fs' \<Longrightarrow> q \<noteq> p \<Longrightarrow> read_file p fs' = read_file p fs"
  by (auto simp: save_def read_file_def update_conv' split: if_splits)

lemma process_row_Inr:
  assumes "process_row env tp out pf fm idx row fs = Inr fs'"
  shows "\<exists>vars ctx doc fs1.
           undeclared_variables env tp fs = Inr vars \<and>
           build_context env fm row vars Map.empty = Inr ctx \<and>
           render_template env tp ctx fs = Inr doc \<and>
           save (os_path_join out (base_name env idx row @ ''.docx'')) doc fs = Inr fs1 \<and>
           (fs' = fs1 \<or>
            (\<exists>pdf. save (os_path_join pf (base_name env idx row @ ''.pdf'')) pdf fs1 = Inr fs'))"
  using assms
  by (auto simp: process_row_def Let_def split: sum.splits)

lemma process_row_docx:
  assumes "process_row env tp out pf fm idx row fs = Inr fs'"
  shows "\<exists>vars ctx doc.
           undeclared_variables env tp fs = Inr vars \<and>
           build_context env fm row vars Map.empty = Inr ctx \<and>
           render_template env tp ctx fs = Inr doc \<and>
           read_file (os_path_join out (base_name env idx row @ ''.docx'')) fs' = Some doc"
proof -
  from process_row_Inr [OF assms] obtain vars ctx doc fs1 where
    v: "undeclared_variables env tp fs = Inr vars" and
    c: "build_context env fm row vars Map.empty = Inr ctx" and
    r: "render_template env tp ctx fs = Inr doc" and
    s: "save (os_path_join out (base_name env idx row @ ''.docx'')) doc fs = Inr fs1" and
    p: "fs' = fs1 \<or>
        (\<exists>pdf. save (os_path_join pf (base_name env idx row @ ''.pdf'')) pdf fs1 = Inr fs')"
    by blast
  have "read_file (os_path_join out (base_name env idx row @ ''.docx'')) fs' = Some doc"
    using p save_read_same [OF s] save_read_other docx_pdf_distinct
    by (metis)
  with v c r show ?thesis
    by blast
qed


text \<open>
  The path of a row's document, as the code computes it: when the \<^verbatim>\<open>try\<close> block of a row
  succeeds, the rendered document is at \<open>email_org.docx\<close> in the output directory, where
  \<open>email\<close> is the sanitized \<^verbatim>\<open>str\<close> of the row's \<open>Email\<close> cell, or \<open>row_idx\<close> when the row
  has no such column, and \<open>org\<close> is the sanitized \<^verbatim>\<open>str\<close> of the row's organisation cell, or
  \<open>doc_idx\<close> when the row has no such column or that \<^verbatim>\<open>str\<close> is the empty string.
\<close>

lemma process_row_document_name:
  assumes "process_row env template_path output_folder pdf_folder field_mapping idx row fs = Inr fs'"
    and "output_folder = os_path_join work_dir ''output_docs''"
  shows "\<exists>vars ctx doc.
           undeclared_variables env template_path fs = Inr vars \<and>
           build_context env field_mapping row vars Map.empty = Inr ctx \<and>
           render_template env template_path ctx fs = Inr doc \<and>
           read_file
             (output_folder @ ''/'' @
              (case map_of row ''Email'' of
                 Some v \<Rightarrow> sanitize_filename (str_of env v)
               | None \<Rightarrow> ''row_'' @ str_nat idx) @ ''_'' @
              (case map_of row ORG_FIELD of
                 Some v \<Rightarrow> if str_of env v = [] then ''doc_'' @ str_nat idx
                           else sanitize_filename (str_of env v)
               | None \<Rightarrow> ''doc_'' @ str_nat idx) @ ''.docx'') fs' = Some doc"
proof -
  have out: "output_folder \<noteq> [] \<and> last output_folder \<noteq> CHR ''/''"
    unfolding assms(2) by (simp add: os_path_join_def)
  have "os_path_join output_folder (base_name env idx row @ ''.docx'') =
        output_folder @ ''/'' @ base_name env idx row @ ''.docx''"
    using base_name_hd [of env idx row] out by (intro os_path_join_relative) auto
  also have "\<dots> =
     output_folder @ ''/'' @
       (case map_of row ''Email'' of
          Some v \<Rightarrow> sanitize_filename (str_of env v)
        | None \<Rightarrow> ''row_'' @ str_nat idx) @ ''_'' @
       (case map_of row ORG_FIELD of
          Some v \<Rightarrow> if str_of env v = [] then ''doc_'' @ str_nat idx
                    else sanitize_filename (str_of env v)
        | None \<Rightarrow> ''doc_'' @ str_nat idx) @ ''.docx''"
    by (simp add: base_name_eq)
  finally show ?thesis
    using process_row_docx [OF assms(1)] by simp
qed

section \<open>Rows with the same base name\<close>

lemma walk_files_names:
  "map fst (walk_files root fs) =
     map (drop (length root + 1)) (filter (prefix (root @ ''/'')) (map fst (files fs)))"
  by (simp add: walk_files_def filter_map comp_def)

lemma save_names:
  assumes "save p c fs = Inr fs'"
  shows "map fst (files fs') =
       (if p \<in> set (map fst (files fs)) then map fst (files fs) else map fst (files fs) @ [p])"
proof -
  from assms have "files fs' = AList.update p c (files fs)"
    by (auto simp: save_def split: if_splits)
  then show ?thesis
    by (simp only: update_keys)
qed

lemma not_docx_drop: "q \<noteq> [] \<Longrightarrow> last q = CHR ''f'' \<Longrightarrow> \<not> is_docx (drop k q)"
proof
  assume q: "q \<noteq> []" "last q = CHR ''f''" and d: "is_docx (drop k q)"
  from d obtain xs where xs: "drop k q = xs @ ''.docx''"
    by (auto simp: is_docx_def suffix_def)
  then have ne: "drop k q \<noteq> []"
    by simp
  then have "last (drop k q) = last q"
    by (simp add: last_drop)
  with xs q show False
    by simp
qed

lemma save_existing_walk:
  assumes "save p c fs = Inr fs'" and "read_file p fs = Some c0"
  shows "map fst (walk_files root fs') = map fst (walk_files root fs)"
proof -
  from assms(2) have "p \<in> set (map fst (files fs))"
    by (auto simp: read_file_def dest: map_of_SomeD intro: rev_image_eqI)
  with save_names [OF assms(1)] show ?thesis
    by (simp add: walk_files_names)
qed

lemma save_pdf_walk:
  assumes "save q c fs = Inr fs'" and "q \<noteq> []" and "last q = CHR ''f''"
  shows "filter is_docx (map fst (walk_files root fs')) =
         filter is_docx (map fst (walk_files root fs))"
  using save_names [OF assms(1)] not_docx_drop [OF assms(2,3)]
  by (simp add: walk_files_names)


text \<open>
  Claim C9. When two rows produce the same base name (the same sanitized \<open>Email\<close> and
  organisation values) and both are processed successfully, both are counted as
  successes, but the later row's document is written to the path of the earlier one and
  replaces it: after the second row that path holds the second row's rendering and the
  walk of the output directory has no more DOCX entries than before it. So the archive
  can hold fewer DOCX files than the success count (one for a count of two in the
  example below).
\<close>

theorem same_base_name_overwrites:
  assumes p1: "process_row env tp out pf fm i r1 (gfs st) = Inr fs1"
    and p2: "process_row env tp out pf fm j r2 fs1 = Inr fs2"
    and same: "base_name env i r1 = base_name env j r2"
  shows "success_count (row_step env tp out pf fm j r2 (row_step env tp out pf fm i r1 st)) =
           success_count st + 2 \<and>
         gfs (row_step env tp out pf fm j r2 (row_step env tp out pf fm i r1 st)) = fs2 \<and>
         (\<exists>vars ctx doc.
            build_context env fm r2 vars Map.empty = Inr ctx \<and>
            render_template env tp ctx fs1 = Inr doc \<and>
            read_file (os_path_join out (base_name env i r1 @ ''.docx'')) fs2 = Some doc) \<and>
         filter is_docx (map fst (walk_files out fs2)) =
           filter is_docx (map fst (walk_files out fs1))"
proof (intro conjI)
  show "success_count (row_step env tp out pf fm j r2 (row_step env tp out pf fm i r1 st)) =
          success_count st + 2"
    by (simp add: row_step_def p1 p2)
  show "gfs (row_step env tp out pf fm j r2 (row_step env tp out pf fm i r1 st)) = fs2"
    by (simp add: row_step_def p1 p2)
  show "\<exists>vars ctx doc.
          build_context env fm r2 vars Map.empty = Inr ctx \<and>
          render_template env tp ctx fs1 = Inr doc \<and>
          read_file (os_path_join out (base_name env i r1 @ ''.docx'')) fs2 = Some doc"
    using process_row_docx [OF p2] same by auto
  let ?docx = "os_path_join out (base_name env i r1 @ ''.docx'')"
  let ?pdf = "os_path_join pf (base_name env j r2 @ ''.pdf'')"
  from process_row_docx [OF p1] obtain doc1 where old: "read_file ?docx fs1 = Some doc1"
    by blast
  from process_row_Inr [OF p2] same obtain doc fsx where
    s: "save ?docx doc fs1 = Inr fsx" and
    p: "fs2 = fsx \<or> (\<exists>pdf. save ?pdf pdf fsx = Inr fs2)"
    by auto
  have pdf: "?pdf \<noteq> [] \<and> last ?pdf = CHR ''f''"
    by (simp add: os_path_join_def)
  have "filter is_docx (map fst (walk_files out fs2)) =
        filter is_docx (map fst (walk_files out fsx))"
    using p pdf save_pdf_walk by blast
  also have "map fst (walk_files out fsx) = map fst (walk_files out fs1)"
    using s old by (rule save_existing_walk)
  finally show "filter is_docx (map fst (walk_files out fs2)) =
                filter is_docx (map fst (walk_files out fs1))" .
qed

theorem same_base_name_overwrites_witness:
  "success_count
     (row_step demo_env ''/tmp/w/letter.docx'' ''/tmp/w/output_docs'' ''/tmp/w/output_docs/pdf_files''
        (JObj []) 1 (demo_row ''a@x.org'' ''Acme'' ''Bob'')
        (row_step demo_env ''/tmp/w/letter.docx'' ''/tmp/w/output_docs''
           ''/tmp/w/output_docs/pdf_files'' (JObj []) 0 (demo_row ''a@x.org'' ''Acme'' ''Ann'')
           \<lparr>gfs = \<lparr>dirs = [''/tmp/w''], files = [(''/tmp/w/letter.docx'', ''tpl'')]\<rparr>,
            success_count = 0, error_list = []\<rparr>)) = 2 \<and>
   generate_documents demo_env (demo_request ''letter.docx'' ''data.csv'' ''dup'' []) demo_fs =
     (demo_fs, 200,
      ZipFile ''documents_20240101_120000.zip'' [(''a@x.org_Acme.docx'', ''Dear Bob [Phone]'')])"
proof -
  let ?st = "\<lparr>gfs = \<lparr>dirs = [''/tmp/w''], files = [(''/tmp/w/letter.docx'', ''tpl'')]\<rparr>,
             success_count = 0, error_list = []\<rparr>"
  let ?fs1 = "\<lparr>dirs = [''/tmp/w''],
              files = [(''/tmp/w/letter.docx'', ''tpl''),
                       (''/tmp/w/output_docs/a@x.org_Acme.docx'', ''Dear Ann [Phone]'')]\<rparr>"
  let ?fs2 = "\<lparr>dirs = [''/tmp/w''],
              files = [(''/tmp/w/letter.docx'', ''tpl''),
                       (''/tmp/w/output_docs/a@x.org_Acme.docx'', ''Dear Bob [Phone]'')]\<rparr>"
  have h1: "process_row demo_env ''/tmp/w/letter.docx'' ''/tmp/w/output_docs''
      ''/tmp/w/output_docs/pdf_files'' (JObj []) 0 (demo_row ''a@x.org'' ''Acme'' ''Ann'') (gfs ?st) =
      Inr ?fs1"
    by (simp add: demo_defs run_defs ORG_FIELD_def)
  have h2: "process_row demo_env ''/tmp/w/letter.docx'' ''/tmp/w/output_docs''
      ''/tmp/w/output_docs/pdf_files'' (JObj []) 1 (demo_row ''a@x.org'' ''Acme'' ''Bob'') ?fs1 =
      Inr ?fs2"
    by (simp add: demo_defs run_defs ORG_FIELD_def)
  have h3: "base_name demo_env 0 (demo_row ''a@x.org'' ''Acme'' ''Ann'') =
            base_name demo_env 1 (demo_row ''a@x.org'' ''Acme'' ''Bob'')"
    by (simp add: demo_defs base_name_def ORG_FIELD_def)
  have run: "generate_documents demo_env (demo_request ''letter.docx'' ''data.csv'' ''dup'' []) demo_fs =
     (demo_fs, 200,
      ZipFile ''documents_20240101_120000.zip'' [(''a@x.org_Acme.docx'', ''Dear Bob [Phone]'')])"
    by (simp add: demo_defs run_defs ORG_FIELD_def)
  from same_base_name_overwrites [OF h1 h2 h3] run show ?thesis
    by simp
qed

section \<open>The loop over the rows and the answer of the request\<close>





lemma generate_documents_reaches_loop:
  assumes "map_of (req_files req) ''template'' = Some template_file"
    and "map_of (req_files req) ''csv'' = Some csv_file"
    and "filename template_file \<noteq> []" and "filename csv_file \<noteq> []"
    and "work_dir = mkdtemp env fs"
    and "template_path = os_path_join work_dir (secure_filename env (filename template_file))"
    and "csv_path = os_path_join work_dir (secure_filename env (filename csv_file))"
    and "output_folder = os_path_join work_dir ''output_docs''"
    and "pdf_folder = os_path_join output_folder ''pdf_files''"
    and "save template_path (content template_file) (fs\<lparr>dirs := work_dir # dirs fs\<rparr>) = Inr fs1"
    and "save csv_path (content csv_file) fs1 = Inr fs2"
    and "pd_read_csv env csv_path (detect_csv_encoding env csv_path fs2) None fs2 = Inr data"
    and "makedirs output_folder pdf_folder fs2 = Inr fs3"
    and "final = generate_rows env template_path output_folder pdf_folder (parse_mapping env req) 0
                   (records data) \<lparr>gfs = fs3, success_count = 0, error_list = []\<rparr>"
  shows "generate_documents env req fs =
           (if success_count final = 0
            then (gfs final, 400,
                  Error (MSG_NO_DOCUMENTS @ join '', '' (take 3 (error_list final))))
            else (rmtree work_dir (gfs final), 200,
                  ZipFile (''documents_'' @ now env @ ''.zip'')
                    (walk_files output_folder (gfs final))))"
  using assms by (simp add: generate_documents_def generate_body_def Let_def)





section \<open>The work directory and the extension check in generation\<close>

lemma under_self: "under d d"
  by (simp add: under_def)

lemma rmtree_removes: "\<not> tree_present d (rmtree d fs)"
  by (simp add: tree_present_def rmtree_def list_ex_iff comp_def)

lemma save_dirs: "save p c fs = Inr fs' \<Longrightarrow> dirs fs' = dirs fs"
  by (auto simp: save_def split: if_splits)

lemma process_row_dirs:
  assumes "process_row env tp out pf fm idx row fs = Inr fs'"
  shows "dirs fs' = dirs fs"
  using process_row_Inr [OF assms] save_dirs by metis

lemma row_step_dirs: "dirs (gfs (row_step env tp out pf fm idx row st)) = dirs (gfs st)"
  by (auto simp: row_step_def process_row_dirs split: sum.splits)

lemma generate_rows_dirs: "dirs (gfs (generate_rows env tp out pf fm idx rows st)) = dirs (gfs st)"
  by (induction rows arbitrary: idx st) (simp_all add: row_step_dirs)

lemma makedirs_dirs: "makedirs a b fs = Inr fs' \<Longrightarrow> set (dirs fs) \<subseteq> set (dirs fs')"
  by (auto simp: makedirs_def split: if_splits)

lemma generate_documents_success_cleans:
  assumes "generate_documents env req fs = (fs', 200, b)"
  shows "\<not> tree_present (mkdtemp env fs) fs'"
  using assms rmtree_removes [of "mkdtemp env fs"]
  by (auto simp: generate_documents_def generate_body_def Let_def
           split: option.splits if_splits sum.splits prod.splits)

lemma generate_documents_exception_cleans:
  assumes "map_of (req_files req) ''template'' = Some template_file"
    and "map_of (req_files req) ''csv'' = Some csv_file"
    and "filename template_file \<noteq> []" and "filename csv_file \<noteq> []"
    and "generate_body env template_file csv_file (parse_mapping env req) (mkdtemp env fs)
           (fs\<lparr>dirs := mkdtemp env fs # dirs fs\<rparr>) = Inl (fs_e, e)"
  shows "generate_documents env req fs =
           (rmtree (mkdtemp env fs) fs_e, 400, Error (MSG_PROCESSING @ e)) \<and>
         \<not> tree_present (mkdtemp env fs) (rmtree (mkdtemp env fs) fs_e)"
  using assms by (simp add: generate_documents_def Let_def rmtree_removes)


text \<open>
  Claim C2 says that the work directory is removed on every exit path of
  \<open>generate_documents\<close>. The two lemmas above show it for the answer 200 and for an
  exception of the inner \<^verbatim>\<open>try\<close>, where the source calls \<^verbatim>\<open>shutil.rmtree\<close>. The
  theorem is the third path: whenever the loop ends with no successful row, the handler
  returns its 400 from inside the \<^verbatim>\<open>try\<close> without that call, and the work directory is
  still there in the file system it leaves.
\<close>

theorem zero_successes_leave_work_dir:
  assumes
    "map_of (req_files req) ''template'' = Some template_file"
    and "map_of (req_files req) ''csv'' = Some csv_file"
    and "filename template_file \<noteq> []" and "filename csv_file \<noteq> []"
    and "work_dir = mkdtemp env fs"
    and "template_path = os_path_join work_dir (secure_filename env (filename template_file))"
    and "csv_path = os_path_join work_dir (secure_filename env (filename csv_file))"
    and "output_folder = os_path_join work_dir ''output_docs''"
    and "pdf_folder = os_path_join output_folder ''pdf_files''"
    and "save template_path (content template_file) (fs\<lparr>dirs := work_dir # dirs fs\<rparr>) = Inr fs1"
    and "save csv_path (content csv_file) fs1 = Inr fs2"
    and "pd_read_csv env csv_path (detect_csv_encoding env csv_path fs2) None fs2 = Inr data"
    and "makedirs output_folder pdf_folder fs2 = Inr fs3"
    and "final = generate_rows env template_path output_folder pdf_folder (parse_mapping env req) 0
                   (records data) \<lparr>gfs = fs3, success_count = 0, error_list = []\<rparr>"
    and "success_count final = 0"
  shows "generate_documents env req fs =
           (gfs final, 400, Error (MSG_NO_DOCUMENTS @ join '', '' (take 3 (error_list final)))) \<and>
         tree_present work_dir (gfs final)"
proof
  show "generate_documents env req fs =
          (gfs final, 400, Error (MSG_NO_DOCUMENTS @ join '', '' (take 3 (error_list final))))"
    using generate_documents_reaches_loop [OF assms(1-14)] assms(15) by simp
  have "dirs (gfs final) = dirs fs3"
    unfolding assms(14) by (simp add: generate_rows_dirs)
  moreover have "set (dirs fs2) \<subseteq> set (dirs fs3)"
    using assms(13) by (rule makedirs_dirs)
  moreover have "dirs fs2 = work_dir # dirs fs"
    using save_dirs [OF assms(11)] save_dirs [OF assms(10)] by simp
  ultimately have "work_dir \<in> set (dirs (gfs final))"
    by auto
  then show "tree_present work_dir (gfs final)"
    using under_self [of work_dir] by (auto simp: tree_present_def list_ex_iff)
qed

theorem zero_successes_leave_work_dir_witness:
  "generate_documents demo_env (demo_request ''letter.docx'' ''data.csv'' ''none'' []) demo_fs =
     (\<lparr>dirs = [''/tmp/w/output_docs/pdf_files'', ''/tmp/w/output_docs'', ''/tmp/w'', ''/tmp''],
       files = [(''/tmp/w/letter.docx'', ''tpl''), (''/tmp/w/data.csv'', ''none'')]\<rparr>,
      400, Error MSG_NO_DOCUMENTS) \<and>
   tree_present ''/tmp/w''
     \<lparr>dirs = [''/tmp/w/output_docs/pdf_files'', ''/tmp/w/output_docs'', ''/tmp/w'', ''/tmp''],
      files = [(''/tmp/w/letter.docx'', ''tpl''), (''/tmp/w/data.csv'', ''none'')]\<rparr> \<and>
   \<not> tree_present ''/tmp/w'' demo_fs"
proof -
  let ?req = "demo_request ''letter.docx'' ''data.csv'' ''none'' []"
  let ?t = "\<lparr>filename = ''letter.docx'', content = ''tpl''\<rparr>"
  let ?c = "\<lparr>filename = ''data.csv'', content = ''none''\<rparr>"
  let ?dirs = "[''/tmp/w/output_docs/pdf_files'', ''/tmp/w/output_docs'', ''/tmp/w'', ''/tmp'']"
  let ?fs1 = "\<lparr>dirs = [''/tmp/w'', ''/tmp''], files = [(''/tmp/w/letter.docx'', ''tpl'')]\<rparr>"
  let ?fs2 = "\<lparr>dirs = [''/tmp/w'', ''/tmp''],
              files = [(''/tmp/w/letter.docx'', ''tpl''), (''/tmp/w/data.csv'', ''none'')]\<rparr>"
  let ?fs3 = "\<lparr>dirs = ?dirs,
              files = [(''/tmp/w/letter.docx'', ''tpl''), (''/tmp/w/data.csv'', ''none'')]\<rparr>"
  let ?data = "\<lparr>columns = [''Email'', ORG_FIELD, ''Name''], records = []\<rparr>"
  let ?st0 = "\<lparr>gfs = ?fs3, success_count = 0, error_list = []\<rparr>"
  have a1: "map_of (req_files ?req) ''template'' = Some ?t"
    and a2: "map_of (req_files ?req) ''csv'' = Some ?c"
    and a3: "filename ?t \<noteq> []" and a4: "filename ?c \<noteq> []"
    and a5: "''/tmp/w'' = mkdtemp demo_env demo_fs"
    and a6: "''/tmp/w/letter.docx'' = os_path_join ''/tmp/w'' (secure_filename demo_env (filename ?t))"
    and a7: "''/tmp/w/data.csv'' = os_path_join ''/tmp/w'' (secure_filename demo_env (filename ?c))"
    and a8: "''/tmp/w/output_docs'' = os_path_join ''/tmp/w'' ''output_docs''"
    and a9: "''/tmp/w/output_docs/pdf_files'' = os_path_join ''/tmp/w/output_docs'' ''pdf_files''"
    by (simp_all add: demo_defs os_path_join_def)
  have a10: "save ''/tmp/w/letter.docx'' (content ?t) (demo_fs\<lparr>dirs := ''/tmp/w'' # dirs demo_fs\<rparr>) = Inr ?fs1"
    and a11: "save ''/tmp/w/data.csv'' (content ?c) ?fs1 = Inr ?fs2"
    by (simp_all add: demo_defs save_def)
  have a12: "pd_read_csv demo_env ''/tmp/w/data.csv''
               (detect_csv_encoding demo_env ''/tmp/w/data.csv'' ?fs2) None ?fs2 = Inr ?data"
    by (simp add: demo_defs pd_read_csv_def read_file_def detect_csv_encoding_def encodings_def)
  have a13: "makedirs ''/tmp/w/output_docs'' ''/tmp/w/output_docs/pdf_files'' ?fs2 = Inr ?fs3"
    by (simp add: makedirs_def)
  have fin: "?st0 = generate_rows demo_env ''/tmp/w/letter.docx'' ''/tmp/w/output_docs''
      ''/tmp/w/output_docs/pdf_files'' (parse_mapping demo_env ?req) 0 (records ?data) ?st0"
    by simp
  have zero: "success_count ?st0 = 0"
    by simp
  note T = zero_successes_leave_work_dir
    [OF a1 a2 a3 a4 a5 a6 a7 a8 a9 a10 a11 a12 a13 fin zero]
  have fresh: "\<not> tree_present ''/tmp/w'' demo_fs"
    by (simp add: tree_present_def under_def demo_defs)
  from T fresh show ?thesis
    by simp
qed

text \<open>
  Claim C1 says that \<open>generate_documents\<close> answers 400 to an upload with a disallowed
  extension before anything is persisted or processed. The handler never calls
  \<open>allowed_file\<close> (the two preview handlers do): with a disallowed extension on either
  upload, the uploads are saved in the work directory as for any other name, and the
  answer is the one the loop over the rows gives, the archive with status 200 as soon as
  one row succeeds.
\<close>

theorem disallowed_extension_is_processed:
  assumes "\<not> allowed_file (filename template_file) \<or> \<not> allowed_file (filename csv_file)"
    and
    "map_of (req_files req) ''template'' = Some template_file"
    and "map_of (req_files req) ''csv'' = Some csv_file"
    and "filename template_file \<noteq> []" and "filename csv_file \<noteq> []"
    and "work_dir = mkdtemp env fs"
    and "template_path = os_path_join work_dir (secure_filename env (filename template_file))"
    and "csv_path = os_path_join work_dir (secure_filename env (filename csv_file))"
    and "output_folder = os_path_join work_dir ''output_docs''"
    and "pdf_folder = os_path_join output_folder ''pdf_files''"
    and "save template_path (content template_file) (fs\<lparr>dirs := work_dir # dirs fs\<rparr>) = Inr fs1"
    and "save csv_path (content csv_file) fs1 = Inr fs2"
    and "pd_read_csv env csv_path (detect_csv_encoding env csv_path fs2) None fs2 = Inr data"
    and "makedirs output_folder pdf_folder fs2 = Inr fs3"
    and "final = generate_rows env template_path output_folder pdf_folder (parse_mapping env req) 0
                   (records data) \<lparr>gfs = fs3, success_count = 0, error_list = []\<rparr>"
  shows "read_file template_path fs1 = Some (content template_file) \<and>
         read_file csv_path fs2 = Some (content csv_file) \<and>
         generate_documents env req fs =
           (if success_count final = 0
            then (gfs final, 400,
                  Error (MSG_NO_DOCUMENTS @ join '', '' (take 3 (error_list final))))
            else (rmtree work_dir (gfs final), 200,
                  ZipFile (''documents_'' @ now env @ ''.zip'')
                    (walk_files output_folder (gfs final))))"
  using save_read_same [OF assms(11)] save_read_same [OF assms(12)]
    generate_documents_reaches_loop [OF assms(2-15)]
  by simp

theorem disallowed_extension_is_processed_witness:
  "\<not> allowed_file ''letter.txt'' \<and> \<not> allowed_file ''data.txt'' \<and>
   read_file ''/tmp/w/letter.txt''
     \<lparr>dirs = [''/tmp/w'', ''/tmp''], files = [(''/tmp/w/letter.txt'', ''tpl'')]\<rparr> = Some ''tpl'' \<and>
   generate_documents demo_env (demo_request ''letter.txt'' ''data.txt'' ''one'' []) demo_fs =
     (demo_fs, 200,
      ZipFile ''documents_20240101_120000.zip'' [(''a@x.org_Acme.docx'', ''Dear Ann [Phone]'')])"
proof -
  let ?req = "demo_request ''letter.txt'' ''data.txt'' ''one'' []"
  let ?t = "\<lparr>filename = ''letter.txt'', content = ''tpl''\<rparr>"
  let ?c = "\<lparr>filename = ''data.txt'', content = ''one''\<rparr>"
  let ?dirs = "[''/tmp/w/output_docs/pdf_files'', ''/tmp/w/output_docs'', ''/tmp/w'', ''/tmp'']"
  let ?fs1 = "\<lparr>dirs = [''/tmp/w'', ''/tmp''], files = [(''/tmp/w/letter.txt'', ''tpl'')]\<rparr>"
  let ?fs2 = "\<lparr>dirs = [''/tmp/w'', ''/tmp''],
              files = [(''/tmp/w/letter.txt'', ''tpl''), (''/tmp/w/data.txt'', ''one'')]\<rparr>"
  let ?fs3 = "\<lparr>dirs = ?dirs,
              files = [(''/tmp/w/letter.txt'', ''tpl''), (''/tmp/w/data.txt'', ''one'')]\<rparr>"
  let ?data = "\<lparr>columns = [''Email'', ORG_FIELD, ''Name''], records = [demo_row ''a@x.org'' ''Acme'' ''Ann'']\<rparr>"
  let ?st0 = "\<lparr>gfs = ?fs3, success_count = 0, error_list = []\<rparr>"
  have a1: "map_of (req_files ?req) ''template'' = Some ?t"
    and a2: "map_of (req_files ?req) ''csv'' = Some ?c"
    and a3: "filename ?t \<noteq> []" and a4: "filename ?c \<noteq> []"
    and a5: "''/tmp/w'' = mkdtemp demo_env demo_fs"
    and a6: "''/tmp/w/letter.txt'' = os_path_join ''/tmp/w'' (secure_filename demo_env (filename ?t))"
    and a7: "''/tmp/w/data.txt'' = os_path_join ''/tmp/w'' (secure_filename demo_env (filename ?c))"
    and a8: "''/tmp/w/output_docs'' = os_path_join ''/tmp/w'' ''output_docs''"
    and a9: "''/tmp/w/output_docs/pdf_files'' = os_path_join ''/tmp/w/output_docs'' ''pdf_files''"
    by (simp_all add: demo_defs os_path_join_def)
  have a10: "save ''/tmp/w/letter.txt'' (content ?t) (demo_fs\<lparr>dirs := ''/tmp/w'' # dirs demo_fs\<rparr>) = Inr ?fs1"
    and a11: "save ''/tmp/w/data.txt'' (content ?c) ?fs1 = Inr ?fs2"
    by (simp_all add: demo_defs save_def)
  have a12: "pd_read_csv demo_env ''/tmp/w/data.txt''
               (detect_csv_encoding demo_env ''/tmp/w/data.txt'' ?fs2) None ?fs2 = Inr ?data"
    by (simp add: demo_defs pd_read_csv_def read_file_def detect_csv_encoding_def encodings_def)
  have a13: "makedirs ''/tmp/w/output_docs'' ''/tmp/w/output_docs/pdf_files'' ?fs2 = Inr ?fs3"
    by (simp add: makedirs_def)
  let ?fsA = "\<lparr>dirs = ?dirs,
              files = [(''/tmp/w/letter.txt'', ''tpl''), (''/tmp/w/data.txt'', ''one''),
                       (''/tmp/w/output_docs/a@x.org_Acme.docx'', ''Dear Ann [Phone]'')]\<rparr>"
  let ?final = "\<lparr>gfs = ?fsA, success_count = 1, error_list = []\<rparr>"
  have no: "\<not> allowed_file ''letter.txt''" "\<not> allowed_file ''data.txt''"
    by (simp_all add: allowed_file_def rsplit_dot_def lower_def ascii_lower_def ALLOWED_EXTENSIONS_def)
  then have a0: "\<not> allowed_file (filename ?t) \<or> \<not> allowed_file (filename ?c)"
    by simp
  have fm: "parse_mapping demo_env ?req = JObj []"
    by (simp add: parse_mapping_def demo_defs)
  have p1: "process_row demo_env ''/tmp/w/letter.txt'' ''/tmp/w/output_docs''
      ''/tmp/w/output_docs/pdf_files'' (JObj []) 0 (demo_row ''a@x.org'' ''Acme'' ''Ann'') ?fs3 = Inr ?fsA"
    by (simp add: demo_defs run_defs ORG_FIELD_def)
  have fin: "?final = generate_rows demo_env ''/tmp/w/letter.txt'' ''/tmp/w/output_docs''
      ''/tmp/w/output_docs/pdf_files'' (parse_mapping demo_env ?req) 0 (records ?data) ?st0"
    by (simp add: fm row_step_def p1)
  note T = disallowed_extension_is_processed
    [OF a0 a1 a2 a3 a4 a5 a6 a7 a8 a9 a10 a11 a12 a13 fin]
  from T no show ?thesis
    by (simp add: rmtree_def under_def walk_files_def demo_defs)
qed

section \<open>The name of a row with an empty organisation field\<close>

lemmas cell_defs = cell_env_def cell_row_def to_cell_def

text \<open>
  Claim C5 says that the organisation part of the name is \<open>doc_idx\<close> when the organisation
  field is absent or its value is empty. For an absent column the lemma above gives it.
  For a column that is present with an empty field the code does otherwise: the cell is
  NaN, its \<^verbatim>\<open>str\<close> is the non-empty string \<^verbatim>\<open>'nan'\<close>, the test \<^verbatim>\<open>if org\<close> of the fallback
  lets it through, and the document of the row is written at \<open>email_nan.docx\<close>; nothing
  is written at \<open>email_doc_idx.docx\<close>.
\<close>

theorem empty_organisation_cell_named_nan:
  assumes "process_row env template_path output_folder pdf_folder field_mapping idx row fs = Inr fs'"
    and "output_folder = os_path_join work_dir ''output_docs''"
    and "map_of row ORG_FIELD = Some NaN"
    and "str_of env = str_cell"
    and "email = (case map_of row ''Email'' of
                    Some v \<Rightarrow> sanitize_filename (str_cell v)
                  | None \<Rightarrow> ''row_'' @ str_nat idx)"
  shows "base_name env idx row = email @ ''_nan'' \<and>
         base_name env idx row \<noteq> email @ ''_doc_'' @ str_nat idx \<and>
         (\<exists>doc. read_file (output_folder @ ''/'' @ email @ ''_nan.docx'') fs' = Some doc) \<and>
         read_file (output_folder @ ''/'' @ email @ ''_doc_'' @ str_nat idx @ ''.docx'') fs' =
           read_file (output_folder @ ''/'' @ email @ ''_doc_'' @ str_nat idx @ ''.docx'') fs"
proof -
  let ?claimed = "output_folder @ ''/'' @ email @ ''_doc_'' @ str_nat idx @ ''.docx''"
  have nan: "sanitize_filename ''nan'' = ''nan''"
    by (simp add: sanitize_filename_def illegal_chars_def)
  have base: "base_name env idx row = email @ ''_nan''"
    unfolding base_name_eq assms(5) using assms(3,4) nan by (simp split: option.splits)
  have differ: "base_name env idx row \<noteq> email @ ''_doc_'' @ str_nat idx"
    unfolding base by simp
  from process_row_document_name [OF assms(1,2)] assms(3,4) nan
  have written: "\<exists>doc. read_file (output_folder @ ''/'' @ email @ ''_nan.docx'') fs' = Some doc"
    unfolding assms(5) by (auto split: option.splits)
  have out: "output_folder \<noteq> [] \<and> last output_folder \<noteq> CHR ''/''"
    unfolding assms(2) by (simp add: os_path_join_def)
  have docx: "os_path_join output_folder (base_name env idx row @ ''.docx'') =
              output_folder @ ''/'' @ email @ ''_nan.docx''"
  proof -
    have "os_path_join output_folder (base_name env idx row @ ''.docx'') =
          output_folder @ ''/'' @ base_name env idx row @ ''.docx''"
      using base_name_hd [of env idx row] out by (intro os_path_join_relative) auto
    then show ?thesis
      by (simp add: base)
  qed
  have ne1: "os_path_join output_folder (base_name env idx row @ ''.docx'') \<noteq> ?claimed"
    unfolding docx by simp
  have ne2: "os_path_join pdf_folder (base_name env idx row @ ''.pdf'') \<noteq> ?claimed"
  proof
    assume "os_path_join pdf_folder (base_name env idx row @ ''.pdf'') = ?claimed"
    then have "last (os_path_join pdf_folder (base_name env idx row @ ''.pdf'')) = last ?claimed"
      by simp
    then show False
      by (simp add: os_path_join_last)
  qed
  from process_row_Inr [OF assms(1)] obtain doc fs1 where
    s: "save (os_path_join output_folder (base_name env idx row @ ''.docx'')) doc fs = Inr fs1" and
    p: "fs' = fs1 \<or>
        (\<exists>pdf. save (os_path_join pdf_folder (base_name env idx row @ ''.pdf'')) pdf fs1 = Inr fs')"
    by blast
  have "read_file ?claimed fs1 = read_file ?claimed fs"
    using s ne1 by (rule save_read_other)
  moreover have "read_file ?claimed fs' = read_file ?claimed fs1"
    using p ne2 save_read_other by blast
  ultimately have untouched: "read_file ?claimed fs' = read_file ?claimed fs"
    by simp
  from base differ written untouched show ?thesis
    by blast
qed


theorem empty_organisation_cell_named_nan_witness:
  "cell_row (demo_row ''c@x.org'' [] ''Cy'') =
     [(''Email'', Text ''c@x.org''), (ORG_FIELD, NaN), (''Name'', Text ''Cy'')] \<and>
   read_file ''/tmp/w/output_docs/c@x.org_nan.docx''
     \<lparr>dirs = [''/tmp/w/output_docs/pdf_files'', ''/tmp/w/output_docs'', ''/tmp/w'', ''/tmp''],
      files = [(''/tmp/w/letter.docx'', ''tpl''), (''/tmp/w/data.csv'', ''mix''),
               (''/tmp/w/output_docs/a@x.org_Acme.docx'', ''Dear Ann [Phone]''),
               (''/tmp/w/output_docs/c@x.org_nan.docx'', ''Dear Cy [Phone]'')]\<rparr> =
     Some ''Dear Cy [Phone]'' \<and>
   read_file ''/tmp/w/output_docs/c@x.org_doc_2.docx''
     \<lparr>dirs = [''/tmp/w/output_docs/pdf_files'', ''/tmp/w/output_docs'', ''/tmp/w'', ''/tmp''],
      files = [(''/tmp/w/letter.docx'', ''tpl''), (''/tmp/w/data.csv'', ''mix''),
               (''/tmp/w/output_docs/a@x.org_Acme.docx'', ''Dear Ann [Phone]''),
               (''/tmp/w/output_docs/c@x.org_nan.docx'', ''Dear Cy [Phone]'')]\<rparr> = None \<and>
   generate_documents cell_env (demo_request ''letter.docx'' ''data.csv'' ''mix'' []) demo_fs =
     (demo_fs, 200,
      ZipFile ''documents_20240101_120000.zip''
        [(''a@x.org_Acme.docx'', ''Dear Ann [Phone]''), (''c@x.org_nan.docx'', ''Dear Cy [Phone]'')])"
proof -
  let ?req = "demo_request ''letter.docx'' ''data.csv'' ''mix'' []"
  let ?t = "\<lparr>filename = ''letter.docx'', content = ''tpl''\<rparr>"
  let ?c = "\<lparr>filename = ''data.csv'', content = ''mix''\<rparr>"
  let ?dirs = "[''/tmp/w/output_docs/pdf_files'', ''/tmp/w/output_docs'', ''/tmp/w'', ''/tmp'']"
  let ?fs1 = "\<lparr>dirs = [''/tmp/w'', ''/tmp''], files = [(''/tmp/w/letter.docx'', ''tpl'')]\<rparr>"
  let ?fs2 = "\<lparr>dirs = [''/tmp/w'', ''/tmp''],
              files = [(''/tmp/w/letter.docx'', ''tpl''), (''/tmp/w/data.csv'', ''mix'')]\<rparr>"
  let ?fs3 = "\<lparr>dirs = ?dirs,
              files = [(''/tmp/w/letter.docx'', ''tpl''), (''/tmp/w/data.csv'', ''mix'')]\<rparr>"
  let ?fsA = "\<lparr>dirs = ?dirs,
              files = [(''/tmp/w/letter.docx'', ''tpl''), (''/tmp/w/data.csv'', ''mix''),
                       (''/tmp/w/output_docs/a@x.org_Acme.docx'', ''Dear Ann [Phone]'')]\<rparr>"
  let ?fsB = "\<lparr>dirs = ?dirs,
              files = [(''/tmp/w/letter.docx'', ''tpl''), (''/tmp/w/data.csv'', ''mix''),
                       (''/tmp/w/output_docs/a@x.org_Acme.docx'', ''Dear Ann [Phone]''),
                       (''/tmp/w/output_docs/c@x.org_nan.docx'', ''Dear Cy [Phone]'')]\<rparr>"
  let ?r1 = "[(''Email'', Text ''a@x.org''), (ORG_FIELD, Text ''Acme''), (''Name'', Text ''Ann'')]"
  let ?r2 = "[(''Email'', Text ''b@x.org''), (ORG_FIELD, Text ''B/C''), (''Name'', Text ''!'')]"
  let ?r3 = "[(''Email'', Text ''c@x.org''), (ORG_FIELD, NaN), (''Name'', Text ''Cy'')]"
  let ?data = "\<lparr>columns = [''Email'', ORG_FIELD, ''Name''], records = [?r1, ?r2, ?r3]\<rparr>"
  let ?row = "process_row cell_env ''/tmp/w/letter.docx'' ''/tmp/w/output_docs''
                ''/tmp/w/output_docs/pdf_files'' (JObj [])"
  let ?st0 = "\<lparr>gfs = ?fs3, success_count = 0, error_list = []\<rparr>"
  let ?final = "\<lparr>gfs = ?fsB, success_count = 2,
                 error_list = [MSG_ROW @ ''2: unexpected char'']\<rparr>"
  have r: "cell_row (demo_row ''c@x.org'' [] ''Cy'') = ?r3"
    by (simp add: cell_defs demo_row_def)
  have fm: "parse_mapping cell_env ?req = JObj []"
    by (simp add: parse_mapping_def demo_defs)
  have a1: "map_of (req_files ?req) ''template'' = Some ?t"
    and a2: "map_of (req_files ?req) ''csv'' = Some ?c"
    and a3: "filename ?t \<noteq> []" and a4: "filename ?c \<noteq> []"
    and a5: "''/tmp/w'' = mkdtemp cell_env demo_fs"
    and a6: "''/tmp/w/letter.docx'' = os_path_join ''/tmp/w'' (secure_filename cell_env (filename ?t))"
    and a7: "''/tmp/w/data.csv'' = os_path_join ''/tmp/w'' (secure_filename cell_env (filename ?c))"
    and a8: "''/tmp/w/output_docs'' = os_path_join ''/tmp/w'' ''output_docs''"
    and a9: "''/tmp/w/output_docs/pdf_files'' = os_path_join ''/tmp/w/output_docs'' ''pdf_files''"
    by (simp_all add: cell_defs demo_defs os_path_join_def)
  have a10: "save ''/tmp/w/letter.docx'' (content ?t) (demo_fs\<lparr>dirs := ''/tmp/w'' # dirs demo_fs\<rparr>) = Inr ?fs1"
    and a11: "save ''/tmp/w/data.csv'' (content ?c) ?fs1 = Inr ?fs2"
    by (simp_all add: demo_defs save_def)
  have a12: "pd_read_csv cell_env ''/tmp/w/data.csv''
               (detect_csv_encoding cell_env ''/tmp/w/data.csv'' ?fs2) None ?fs2 = Inr ?data"
    by (simp add: cell_defs demo_defs pd_read_csv_def read_file_def detect_csv_encoding_def
                  encodings_def)
  have a13: "makedirs ''/tmp/w/output_docs'' ''/tmp/w/output_docs/pdf_files'' ?fs2 = Inr ?fs3"
    by (simp add: makedirs_def)
  have p1: "?row 0 ?r1 ?fs3 = Inr ?fsA"
    by (simp add: cell_defs demo_defs run_defs ORG_FIELD_def)
  have p2: "?row (Suc 0) ?r2 ?fsA = Inl ''unexpected char''"
    by (simp add: cell_defs demo_defs run_defs ORG_FIELD_def)
  have p3: "?row (Suc (Suc 0)) ?r3 ?fsA = Inr ?fsB"
    by (simp add: cell_defs demo_defs run_defs ORG_FIELD_def)
  have n2: "str_nat (Suc (Suc 0)) = ''2''"
    by (simp add: str_nat.simps digit_char_def)
  have h3: "map_of ?r3 ORG_FIELD = Some NaN"
    by (simp add: ORG_FIELD_def)
  have h4: "str_of cell_env = str_cell"
    by (simp add: cell_env_def)
  have h5: "''c@x.org'' = (case map_of ?r3 ''Email'' of
                            Some v \<Rightarrow> sanitize_filename (str_cell v)
                          | None \<Rightarrow> ''row_'' @ str_nat (Suc (Suc 0)))"
    by (simp add: sanitize_filename_def illegal_chars_def)
  note T = empty_organisation_cell_named_nan [OF p3 a8 h3 h4 h5]
  from T n2 have w: "read_file ''/tmp/w/output_docs/c@x.org_nan.docx'' ?fsB = Some ''Dear Cy [Phone]''"
    and u: "read_file ''/tmp/w/output_docs/c@x.org_doc_2.docx'' ?fsB = None"
    by (simp_all add: read_file_def)
  have fin: "?final = generate_rows cell_env ''/tmp/w/letter.docx'' ''/tmp/w/output_docs''
      ''/tmp/w/output_docs/pdf_files'' (parse_mapping cell_env ?req) 0 (records ?data) ?st0"
    by (simp add: fm row_step_def p1 p2 p3 n2)
  have run: "generate_documents cell_env ?req demo_fs =
     (demo_fs, 200,
      ZipFile ''documents_20240101_120000.zip''
        [(''a@x.org_Acme.docx'', ''Dear Ann [Phone]''), (''c@x.org_nan.docx'', ''Dear Cy [Phone]'')])"
    unfolding generate_documents_reaches_loop [OF a1 a2 a3 a4 a5 a6 a7 a8 a9 a10 a11 a12 a13 fin]
    by (simp add: rmtree_def under_def walk_files_def cell_defs demo_defs)
  from r w u run show ?thesis
    by (simp only: simp_thms)
qed

end
